theory Spec2Isabelle
  imports Complex_Main "HOL-Library.Word" "HOL-Library.Log_Nat"
begin

section \<open>Tiles\<close>

text \<open>
  Go's \<^verbatim>\<open>int\<close>, of 64 bits, is modelled by \<open>int\<close>, and the wrap-around is written
  where an expression can leave the 64 bits: at the subtraction of \<^verbatim>\<open>calcDrawSize\<close>.
  \<^verbatim>\<open>Tile\<close> is an \<^verbatim>\<open>int8\<close>, an 8-bit word read in two's complement.
  Go's \<^verbatim>\<open>/\<close> and \<^verbatim>\<open>%\<close> truncate towards zero.  The method \<^verbatim>\<open>file\<close> is
  \<open>fileT\<close> here, \<^verbatim>\<open>file\<close> being a keyword of the theory language.
\<close>

definition go_div :: "int \<Rightarrow> int \<Rightarrow> int" where
  "go_div a b = (if (a < 0) = (b < 0) then \<bar>a\<bar> div \<bar>b\<bar> else - (\<bar>a\<bar> div \<bar>b\<bar>))"

definition go_mod :: "int \<Rightarrow> int \<Rightarrow> int" where
  "go_mod a b = a - b * go_div a b"

type_synonym Tile = "8 word"

definition rank :: "Tile \<Rightarrow> int" where
  "rank s = go_div (sint s) 8"

definition rankInverted :: "Tile \<Rightarrow> int" where
  "rankInverted s = 7 - rank s"

definition fileT :: "Tile \<Rightarrow> int" where
  "fileT s = go_mod (sint s) 8"

definition fileInverted :: "Tile \<Rightarrow> int" where
  "fileInverted s = 7 - fileT s"

text \<open>The conversion \<^verbatim>\<open>Tile(file*8 + rank)\<close> keeps the low 8 bits.\<close>

definition tileFromRankFile :: "int \<Rightarrow> int \<Rightarrow> Tile" where
  "tileFromRankFile rnk fl = word_of_int (fl * 8 + rnk)"

record position =
  tile :: Tile
  pieceSymbol :: string

type_synonym board = "position list"

record LastMove =
  From :: Tile
  To :: Tile

text \<open>The constants \<^verbatim>\<open>NoTile Tile = iota - 1\<close>, \<^verbatim>\<open>A8\<close>, ..., \<^verbatim>\<open>H1\<close>.\<close>

definition NoTile :: Tile where "NoTile = - 1"
definition A8 :: Tile where "A8 = 0"
definition B8 :: Tile where "B8 = 1"
definition C8 :: Tile where "C8 = 2"
definition D8 :: Tile where "D8 = 3"
definition E8 :: Tile where "E8 = 4"
definition F8 :: Tile where "F8 = 5"
definition G8 :: Tile where "G8 = 6"
definition H8 :: Tile where "H8 = 7"
definition A7 :: Tile where "A7 = 8"
definition B7 :: Tile where "B7 = 9"
definition C7 :: Tile where "C7 = 10"
definition D7 :: Tile where "D7 = 11"
definition E7 :: Tile where "E7 = 12"
definition F7 :: Tile where "F7 = 13"
definition G7 :: Tile where "G7 = 14"
definition H7 :: Tile where "H7 = 15"
definition A6 :: Tile where "A6 = 16"
definition B6 :: Tile where "B6 = 17"
definition C6 :: Tile where "C6 = 18"
definition D6 :: Tile where "D6 = 19"
definition E6 :: Tile where "E6 = 20"
definition F6 :: Tile where "F6 = 21"
definition G6 :: Tile where "G6 = 22"
definition H6 :: Tile where "H6 = 23"
definition A5 :: Tile where "A5 = 24"
definition B5 :: Tile where "B5 = 25"
definition C5 :: Tile where "C5 = 26"
definition D5 :: Tile where "D5 = 27"
definition E5 :: Tile where "E5 = 28"
definition F5 :: Tile where "F5 = 29"
definition G5 :: Tile where "G5 = 30"
definition H5 :: Tile where "H5 = 31"
definition A4 :: Tile where "A4 = 32"
definition B4 :: Tile where "B4 = 33"
definition C4 :: Tile where "C4 = 34"
definition D4 :: Tile where "D4 = 35"
definition E4 :: Tile where "E4 = 36"
definition F4 :: Tile where "F4 = 37"
definition G4 :: Tile where "G4 = 38"
definition H4 :: Tile where "H4 = 39"
definition A3 :: Tile where "A3 = 40"
definition B3 :: Tile where "B3 = 41"
definition C3 :: Tile where "C3 = 42"
definition D3 :: Tile where "D3 = 43"
definition E3 :: Tile where "E3 = 44"
definition F3 :: Tile where "F3 = 45"
definition G3 :: Tile where "G3 = 46"
definition H3 :: Tile where "H3 = 47"
definition A2 :: Tile where "A2 = 48"
definition B2 :: Tile where "B2 = 49"
definition C2 :: Tile where "C2 = 50"
definition D2 :: Tile where "D2 = 51"
definition E2 :: Tile where "E2 = 52"
definition F2 :: Tile where "F2 = 53"
definition G2 :: Tile where "G2 = 54"
definition H2 :: Tile where "H2 = 55"
definition A1 :: Tile where "A1 = 56"
definition B1 :: Tile where "B1 = 57"
definition C1 :: Tile where "C1 = 58"
definition D1 :: Tile where "D1 = 59"
definition E1 :: Tile where "E1 = 60"
definition F1 :: Tile where "F1 = 61"
definition G1 :: Tile where "G1 = 62"
definition H1 :: Tile where "H1 = 63"

definition tileMap :: "(string \<times> Tile) list" where
  "tileMap =
    [(''a1'', A1), (''a2'', A2), (''a3'', A3), (''a4'', A4),
     (''a5'', A5), (''a6'', A6), (''a7'', A7), (''a8'', A8),
     (''b1'', B1), (''b2'', B2), (''b3'', B3), (''b4'', B4),
     (''b5'', B5), (''b6'', B6), (''b7'', B7), (''b8'', B8),
     (''c1'', C1), (''c2'', C2), (''c3'', C3), (''c4'', C4),
     (''c5'', C5), (''c6'', C6), (''c7'', C7), (''c8'', C8),
     (''d1'', D1), (''d2'', D2), (''d3'', D3), (''d4'', D4),
     (''d5'', D5), (''d6'', D6), (''d7'', D7), (''d8'', D8),
     (''e1'', E1), (''e2'', E2), (''e3'', E3), (''e4'', E4),
     (''e5'', E5), (''e6'', E6), (''e7'', E7), (''e8'', E8),
     (''f1'', F1), (''f2'', F2), (''f3'', F3), (''f4'', F4),
     (''f5'', F5), (''f6'', F6), (''f7'', F7), (''f8'', F8),
     (''g1'', G1), (''g2'', G2), (''g3'', G3), (''g4'', G4),
     (''g5'', G5), (''g6'', G6), (''g7'', G7), (''g8'', G8),
     (''h1'', H1), (''h2'', H2), (''h3'', H3), (''h4'', H4),
     (''h5'', H5), (''h6'', H6), (''h7'', H7), (''h8'', H8)]"

text \<open>
  The errors of the package: the one \<^verbatim>\<open>TileFromAN\<close> builds, the one the FEN decoder
  returns, those of opening an asset and of decoding it as a PNG, and two panics: that of a call
  through a nil pointer and that of an image too large to be allocated.
\<close>

datatype error =
    TileNotFound string
  | FENError string
  | OpenError string
  | FormatError
  | NilPointer
  | HugeImage

text \<open>
  \<^verbatim>\<open>TileFromAN\<close> returns a pair in Go: the tile and the error, \<^verbatim>\<open>nil\<close> being \<open>None\<close>.
\<close>

definition TileFromAN :: "string \<Rightarrow> Tile \<times> error option" where
  "TileFromAN an =
     (case map_of tileMap an of
        None \<Rightarrow> (NoTile, Some (TileNotFound an))
      | Some t \<Rightarrow> (t, None))"

text \<open>The 64 names of the squares: a file letter followed by a rank digit.\<close>

definition squareNames :: "string list" where
  "squareNames = [[f, r]. f \<leftarrow> ''abcdefgh'', r \<leftarrow> ''12345678'']"


section \<open>The libraries the renderer draws with\<close>

text \<open>
  The drawing context, the image scalers, the file system and the PNG decoder belong to
  other packages.  They are modelled by what the renderer asks of them: a context records
  its current path, its current colour and the operations that have painted its image, in
  order.  Coordinates are the integers the renderer computes.
\<close>

type_synonym rgba = "int \<times> int \<times> int \<times> int"

type_synonym rect = "int \<times> int \<times> int \<times> int"

text \<open>A decoded PNG: its width, its height and its pixels.\<close>

datatype png = PNG (pngWidth: int) (pngHeight: int) (pngPixels: "int list")

datatype fileData = PngData png | OtherData

text \<open>An \<^verbatim>\<open>fs.FS\<close>: the files it can open, by path.\<close>

type_synonym FS = "string \<Rightarrow> fileData option"

definition fsOpen :: "FS \<Rightarrow> string \<Rightarrow> error + fileData" where
  "fsOpen fs name = (case fs name of None \<Rightarrow> Inl (OpenError name) | Some f \<Rightarrow> Inr f)"

definition png_Decode :: "fileData \<Rightarrow> error + png" where
  "png_Decode f = (case f of PngData p \<Rightarrow> Inr p | OtherData \<Rightarrow> Inl FormatError)"

text \<open>The scalers of \<^verbatim>\<open>x/image/draw\<close>, and any other implementation of the interface.\<close>

datatype scaler = NearestNeighbor | ApproxBiLinear | BiLinear | CatmullRom | OtherScaler string

datatype compositeOp = Over | Src

text \<open>\<^verbatim>\<open>image.Rect\<close> orders its corners.\<close>

definition image_Rect :: "int \<Rightarrow> int \<Rightarrow> int \<Rightarrow> int \<Rightarrow> rect" where
  "image_Rect x0 y0 x1 y1 =
     (let (xa, xb) = (if x0 > x1 then (x1, x0) else (x0, x1));
          (ya, yb) = (if y0 > y1 then (y1, y0) else (y0, y1))
      in (xa, ya, xb, yb))"

definition Bounds :: "png \<Rightarrow> rect" where
  "Bounds p = (0, 0, pngWidth p, pngHeight p)"

text \<open>
  An \<^verbatim>\<open>image.RGBA\<close> made by the renderer: its rectangle, and the scaling calls that have
  written into it, oldest first.
\<close>

datatype scaling = Scaling scaler rect png rect compositeOp

record RGBA =
  bounds :: rect
  written :: "scaling list"

definition NewRGBA :: "rect \<Rightarrow> RGBA" where
  "NewRGBA r = \<lparr>bounds = r, written = []\<rparr>"

definition Scale :: "scaler \<Rightarrow> RGBA \<Rightarrow> rect \<Rightarrow> png \<Rightarrow> rect \<Rightarrow> compositeOp \<Rightarrow> RGBA" where
  "Scale s dst dr src sr opr = dst\<lparr>written := written dst @ [Scaling s dr src sr opr]\<rparr>"

datatype drawop =
    FillPath "rect list" rgba
  | DrawnString string int int rgba
  | DrawnImage RGBA int int

record ggContext =
  width :: int
  height :: int
  path :: "rect list"
  colour :: rgba
  fontFace :: string
  ops :: "drawop list"

text \<open>
  \<^verbatim>\<open>gg.NewContext\<close> allocates an \<^verbatim>\<open>image.RGBA\<close> of 4 bytes a pixel.  The rectangle
  it is given has its corners in order, so the sides are not negative;
  \<^verbatim>\<open>image.NewRGBA\<close> panics when the number of bytes does not fit an \<^verbatim>\<open>int\<close>, and the
  allocation of the bytes panics when there are more of them than the runtime can
  address, \<open>2 ^ 48\<close> on amd64.  An allocation that the machine has no memory for ends
  the program; that is not modelled.  A context that is allocated has a side of at most
  \<open>2 ^ 23\<close>: from there on no coordinate the renderer computes leaves the 64 bits of an
  \<^verbatim>\<open>int\<close>, and none loses a bit when it is made a \<^verbatim>\<open>float64\<close>.
\<close>

definition freshContext :: "int \<Rightarrow> int \<Rightarrow> ggContext" where
  "freshContext w h =
     \<lparr>width = w, height = h, path = [], colour = (0, 0, 0, 0),
      fontFace = ''Face7x13'', ops = []\<rparr>"

definition NewContext :: "int \<Rightarrow> int \<Rightarrow> error + ggContext" where
  "NewContext w h =
     (if 2 ^ 62 \<le> \<bar>w\<bar> \<or> 2 ^ 48 < 4 * \<bar>w\<bar> * \<bar>h\<bar> then Inl HugeImage
      else Inr (freshContext \<bar>w\<bar> \<bar>h\<bar>))"

definition DrawRectangle :: "int \<Rightarrow> int \<Rightarrow> int \<Rightarrow> int \<Rightarrow> ggContext \<Rightarrow> ggContext" where
  "DrawRectangle x y w h c = c\<lparr>path := path c @ [(x, y, w, h)]\<rparr>"

definition SetRGB255 :: "int \<Rightarrow> int \<Rightarrow> int \<Rightarrow> ggContext \<Rightarrow> ggContext" where
  "SetRGB255 r g b c = c\<lparr>colour := (r, g, b, 255)\<rparr>"

definition Fill :: "ggContext \<Rightarrow> ggContext" where
  "Fill c = c\<lparr>ops := ops c @ [FillPath (path c) (colour c)], path := []\<rparr>"

definition SetFontFace :: "string \<Rightarrow> ggContext \<Rightarrow> ggContext" where
  "SetFontFace f c = c\<lparr>fontFace := f\<rparr>"

definition DrawString :: "string \<Rightarrow> int \<Rightarrow> int \<Rightarrow> ggContext \<Rightarrow> ggContext" where
  "DrawString s x y c = c\<lparr>ops := ops c @ [DrawnString s x y (colour c)]\<rparr>"

definition DrawImage :: "RGBA \<Rightarrow> int \<Rightarrow> int \<Rightarrow> ggContext \<Rightarrow> ggContext" where
  "DrawImage im x y c = c\<lparr>ops := ops c @ [DrawnImage im x y]\<rparr>"

text \<open>The image of a context: its size and what has been painted on it.\<close>

record image =
  imageWidth :: int
  imageHeight :: int
  painted :: "drawop list"

definition Image :: "ggContext \<Rightarrow> image" where
  "Image c = \<lparr>imageWidth = width c, imageHeight = height c, painted = ops c\<rparr>"

text \<open>
  What the fills leave at a pixel: a fill of opaque colour replaces what was under every
  pixel of its rectangles, so the colour is that of the last fill that covers the pixel.
\<close>

fun covers :: "rect \<Rightarrow> int \<times> int \<Rightarrow> bool" where
  "covers (x, y, w, h) (px, py) = (x \<le> px \<and> px < x + w \<and> y \<le> py \<and> py < y + h)"

fun isFill :: "drawop \<Rightarrow> bool" where
  "isFill (FillPath rs c) = True"
| "isFill (DrawnString s x y c) = False"
| "isFill (DrawnImage im x y) = False"

fun fillCovers :: "drawop \<Rightarrow> int \<times> int \<Rightarrow> bool" where
  "fillCovers (FillPath rs c) p = list_ex (\<lambda>r. covers r p) rs"
| "fillCovers (DrawnString s x y c) p = False"
| "fillCovers (DrawnImage im x y) p = False"

fun fillColourAt :: "drawop list \<Rightarrow> int \<times> int \<Rightarrow> rgba option" where
  "fillColourAt [] p = None"
| "fillColourAt (FillPath rs c # os) p =
     (case fillColourAt os p of
        Some c' \<Rightarrow> Some c'
      | None \<Rightarrow> if list_ex (\<lambda>r. covers r p) rs then Some c else None)"
| "fillColourAt (DrawnString s x y c # os) p = fillColourAt os p"
| "fillColourAt (DrawnImage im x y # os) p = fillColourAt os p"


section \<open>The type float64\<close>

text \<open>
  A \<^verbatim>\<open>float64\<close> is modelled by its value.  \<open>Finite m e\<close> is \<open>m * 2 ^ e\<close>; every finite
  \<^verbatim>\<open>float64\<close> has this form with \<open>\<bar>m\<bar> < 2 ^ 53\<close> and \<open>e\<close> from \<open>- 1074\<close> to 971, and the
  operations below depend on the value only, not on the pair that writes it.  The sign of
  a zero is not kept: the renderer compares a \<^verbatim>\<open>float64\<close> with zero, multiplies it and
  converts it to \<^verbatim>\<open>int\<close>, and none of these tells the two zeros apart.
\<close>

datatype float64 = Finite int int | PosInf | NegInf | NaN

definition isFloat64 :: "float64 \<Rightarrow> bool" where
  "isFloat64 x =
     (case x of Finite m e \<Rightarrow> \<bar>m\<bar> < 2 ^ 53 \<and> - 1074 \<le> e \<and> e \<le> 971 | _ \<Rightarrow> True)"

definition f64_val :: "float64 \<Rightarrow> real" where
  "f64_val x =
     (case x of
        Finite m e \<Rightarrow> (if 0 \<le> e then of_int m * 2 ^ nat e else of_int m / 2 ^ nat (- e))
      | _ \<Rightarrow> 0)"

text \<open>\<open>M / 2 ^ s\<close> rounded to the nearest integer, to the even one of two equally near.\<close>

definition roundHalfEven :: "int \<Rightarrow> nat \<Rightarrow> int" where
  "roundHalfEven M s =
     (let q = M div 2 ^ s; r = M mod 2 ^ s
      in if 2 * r < 2 ^ s then q
         else if 2 ^ s < 2 * r then q + 1
         else if even q then q else q + 1)"

text \<open>
  The \<^verbatim>\<open>float64\<close> nearest to \<open>M * 2 ^ e\<close>, as IEEE 754 rounds the result of an
  operation: 53 bits are kept, no bit below \<open>2 ^ (- 1074)\<close>, and a result of \<open>2 ^ 1024\<close>
  or more is infinite.
\<close>

definition round64 :: "int \<Rightarrow> int \<Rightarrow> float64" where
  "round64 M e =
     (let qe = max (e + bitlen \<bar>M\<bar> - 53) (- 1074);
          M' = (if qe \<le> e then M * 2 ^ nat (e - qe) else roundHalfEven M (nat (qe - e)))
      in if 1024 < qe + bitlen \<bar>M'\<bar> then (if 0 < M then PosInf else NegInf)
         else Finite M' qe)"

text \<open>The conversion \<^verbatim>\<open>float64(n)\<close> of an \<^verbatim>\<open>int\<close>.\<close>

definition f64_of_int :: "int \<Rightarrow> float64" where
  "f64_of_int n = round64 n 0"

text \<open>The product \<^verbatim>\<open>x * y\<close>.\<close>

fun f64_mul :: "float64 \<Rightarrow> float64 \<Rightarrow> float64" where
  "f64_mul NaN y = NaN"
| "f64_mul x NaN = NaN"
| "f64_mul (Finite m e) (Finite n f) = round64 (m * n) (e + f)"
| "f64_mul (Finite m e) PosInf = (if m = 0 then NaN else if 0 < m then PosInf else NegInf)"
| "f64_mul (Finite m e) NegInf = (if m = 0 then NaN else if 0 < m then NegInf else PosInf)"
| "f64_mul PosInf (Finite n f) = (if n = 0 then NaN else if 0 < n then PosInf else NegInf)"
| "f64_mul NegInf (Finite n f) = (if n = 0 then NaN else if 0 < n then NegInf else PosInf)"
| "f64_mul PosInf PosInf = PosInf"
| "f64_mul PosInf NegInf = NegInf"
| "f64_mul NegInf PosInf = NegInf"
| "f64_mul NegInf NegInf = PosInf"

text \<open>The comparison \<^verbatim>\<open>x <= 0.0\<close>, false of a NaN.\<close>

definition f64_le_zero :: "float64 \<Rightarrow> bool" where
  "f64_le_zero x = (case x of Finite m e \<Rightarrow> m \<le> 0 | NegInf \<Rightarrow> True | _ \<Rightarrow> False)"

text \<open>The value of a finite \<^verbatim>\<open>float64\<close> with its fraction dropped.\<close>

definition f64_trunc :: "int \<Rightarrow> int \<Rightarrow> int" where
  "f64_trunc m e =
     (if 0 \<le> e then m * 2 ^ nat e
      else if 0 \<le> m then m div 2 ^ nat (- e)
      else - ((- m) div 2 ^ nat (- e)))"

text \<open>
  The conversion \<^verbatim>\<open>int(x)\<close> of a \<^verbatim>\<open>float64\<close> drops the fraction.  Where the result
  does not fit the 64 bits of an \<^verbatim>\<open>int\<close>, and for an infinity or a NaN, the language
  leaves the value to the implementation; the model takes the one of amd64, the least
  \<^verbatim>\<open>int\<close>.
\<close>

definition fitsInt :: "float64 \<Rightarrow> bool" where
  "fitsInt x =
     (case x of
        Finite m e \<Rightarrow> - (2 ^ 63) \<le> f64_trunc m e \<and> f64_trunc m e < 2 ^ 63
      | _ \<Rightarrow> False)"

definition go_int :: "float64 \<Rightarrow> int" where
  "go_int x =
     (case x of
        Finite m e \<Rightarrow> (if fitsInt x then f64_trunc m e else - (2 ^ 63))
      | _ \<Rightarrow> - (2 ^ 63))"

text \<open>The 64 bits an \<^verbatim>\<open>int\<close> keeps of the result of a subtraction.\<close>

definition int64 :: "int \<Rightarrow> int" where
  "int64 x = (x + 2 ^ 63) mod 2 ^ 64 - 2 ^ 63"

section \<open>The renderer\<close>

text \<open>A missing key of a Go map reads as the zero value, the empty string.\<close>

definition pieceNames :: "string \<Rightarrow> string" where
  "pieceNames s =
     (case map_of
        [(''b'', ''bd.png''), (''B'', ''bl.png''), (''k'', ''kd.png''), (''K'', ''kl.png''),
         (''n'', ''nd.png''), (''N'', ''nl.png''), (''p'', ''pd.png''), (''P'', ''pl.png''),
         (''q'', ''qd.png''), (''Q'', ''ql.png''), (''r'', ''rd.png''), (''R'', ''rl.png'')] s of
        None \<Rightarrow> ''''
      | Some n \<Rightarrow> n)"

definition defaultBoardSize :: int where "defaultBoardSize = 512"

text \<open>
  The constant \<^verbatim>\<open>0.9\<close>, as a \<^verbatim>\<open>float64\<close>: the bits \<^verbatim>\<open>0x3FECCCCCCCCCCCCD\<close>, the value
  nearest to nine tenths.
\<close>

definition defaultPieceRatio :: float64 where
  "defaultPieceRatio = Finite 8106479329266893 (- 53)"

definition fileSymbols :: string where "fileSymbols = ''abcdefgh''"
definition fileSymbolsReverse :: string where "fileSymbolsReverse = ''hgfedcba''"
definition rankSymbols :: string where "rankSymbols = ''12345678''"
definition rankSymbolsReverse :: string where "rankSymbolsReverse = ''87654321''"

definition colorLight :: "int list" where "colorLight = [240, 217, 181]"
definition colorDark :: "int list" where "colorDark = [181, 136, 99]"
definition colorHighlightLight :: "int list" where "colorHighlightLight = [247, 193, 99]"
definition colorHighlightDark :: "int list" where "colorHighlightDark = [215, 149, 54]"
definition colorCheck :: "int list" where "colorCheck = [255, 0, 0]"

record drawSize =
  gridSize :: int
  pieceSize :: int
  pieceOffset :: int

text \<open>A nil \<^verbatim>\<open>FileSystem\<close> or \<^verbatim>\<open>Resizer\<close> is \<open>None\<close>.\<close>

record Options =
  FileSystem :: "FS option"
  AssetPath :: string
  Resizer :: "scaler option"
  BoardSize :: int
  PieceRatio :: float64
  Inverted :: bool

text \<open>
  The field \<^verbatim>\<open>context\<close> is \<open>contextP\<close> here (\<^verbatim>\<open>context\<close> is a keyword of the theory
  language).  It is a pointer, nil until the first \<^verbatim>\<open>Render\<close>.
\<close>

record Renderer =
  contextP :: "ggContext option"
  board :: board
  drawSize :: drawSize
  checkTile :: Tile
  lastMove :: "LastMove option"


definition SetCheckTile :: "Tile \<Rightarrow> Renderer \<Rightarrow> Renderer" where
  "SetCheckTile t r = r\<lparr>checkTile := t\<rparr>"

definition SetLastMove :: "LastMove \<Rightarrow> Renderer \<Rightarrow> Renderer" where
  "SetLastMove m r = r\<lparr>lastMove := Some m\<rparr>"

text \<open>
  The drawing methods call the context through the pointer.  \<^verbatim>\<open>Render\<close> is their only
  caller and allocates the context first, so the pointer is never nil there.
\<close>

definition onContext :: "(ggContext \<Rightarrow> ggContext) \<Rightarrow> Renderer \<Rightarrow> Renderer" where
  "onContext f r = r\<lparr>contextP := map_option f (contextP r)\<rparr>"

definition calcDrawSize :: "Options \<Rightarrow> drawSize" where
  "calcDrawSize o' =
     (let gridSize = go_div (BoardSize o') 8;
          pieceSize = go_int (f64_mul (f64_of_int gridSize) (PieceRatio o'))
      in \<lparr>gridSize = gridSize,
          pieceSize = pieceSize,
          pieceOffset = go_div (int64 (gridSize - pieceSize)) 2\<rparr>)"

text \<open>
  \<^verbatim>\<open>loadPNG\<close> reads the embedded \<^verbatim>\<open>assets\<close> when it is given no file system.  What is
  embedded is a parameter: the asset files are not among the sources.
\<close>

definition loadPNG :: "FS \<Rightarrow> FS option \<Rightarrow> string \<Rightarrow> error + png" where
  "loadPNG assets fs assetPath =
     (let (fs', assetPath') =
            (case fs of None \<Rightarrow> (assets, ''assets/'' @ assetPath) | Some f \<Rightarrow> (f, assetPath))
      in case fsOpen fs' assetPath' of
           Inl err \<Rightarrow> Inl err
         | Inr f \<Rightarrow> png_Decode f)"

definition resizeImage :: "png \<Rightarrow> drawSize \<Rightarrow> scaler option \<Rightarrow> RGBA" where
  "resizeImage piece ds resizer =
     (let rect = image_Rect 0 0 (pieceSize ds) (pieceSize ds);
          dst = NewRGBA rect
      in Scale BiLinear dst rect piece (Bounds piece) Over)"

definition drawCell :: "int \<Rightarrow> int \<Rightarrow> int \<Rightarrow> ggContext \<Rightarrow> ggContext" where
  "drawCell g row col c =
     (let c1 = DrawRectangle (row * g) (col * g) g g c;
          c2 = (if go_mod (col + row) 2 = 0
                then SetRGB255 (colorLight ! 0) (colorLight ! 1) (colorLight ! 2) c1
                else SetRGB255 (colorDark ! 0) (colorDark ! 1) (colorDark ! 2) c1)
      in Fill c2)"

definition drawBackground :: "Renderer \<Rightarrow> Renderer" where
  "drawBackground r =
     (let g = gridSize (drawSize r)
      in onContext
           (fold (\<lambda>row. fold (\<lambda>col. drawCell g row col) [0, 1, 2, 3, 4, 5, 6, 7])
              [0, 1, 2, 3, 4, 5, 6, 7]) r)"

definition highlightCells :: "Options \<Rightarrow> Renderer \<Rightarrow> Renderer" where
  "highlightCells o' r =
     (case lastMove r of
        None \<Rightarrow> r
      | Some m \<Rightarrow>
          (let (lastMoveFromRank, lastMoveFromFile, lastMoveToRank, lastMoveToFile) =
                 (if Inverted o'
                  then (rankInverted (From m), fileInverted (From m),
                        rankInverted (To m), fileInverted (To m))
                  else (rank (From m), fileT (From m), rank (To m), fileT (To m)));
               moveFromHighlight =
                 (if go_mod lastMoveFromRank 2 \<noteq> go_mod lastMoveFromFile 2
                  then colorHighlightDark else colorHighlightLight);
               moveToHighlight =
                 (if go_mod lastMoveToRank 2 \<noteq> go_mod lastMoveToFile 2
                  then colorHighlightDark else colorHighlightLight);
               g = gridSize (drawSize r)
           in onContext
                (\<lambda>c. Fill
                   (SetRGB255 (moveToHighlight ! 0) (moveToHighlight ! 1) (moveToHighlight ! 2)
                   (DrawRectangle (lastMoveToFile * g) (lastMoveToRank * g) g g
                   (Fill
                   (SetRGB255 (moveFromHighlight ! 0) (moveFromHighlight ! 1)
                      (moveFromHighlight ! 2)
                   (DrawRectangle (lastMoveFromFile * g) (lastMoveFromRank * g) g g c)))))) r))"

definition drawCheckTile :: "Options \<Rightarrow> Renderer \<Rightarrow> Renderer" where
  "drawCheckTile o' r =
     (if checkTile r = NoTile then r
      else
        (let (checkTileFile, checkTileRank) =
               (if Inverted o'
                then (fileInverted (checkTile r), rankInverted (checkTile r))
                else (fileT (checkTile r), rank (checkTile r)));
             g = gridSize (drawSize r)
         in onContext
              (\<lambda>c. Fill
                 (SetRGB255 (colorCheck ! 0) (colorCheck ! 1) (colorCheck ! 2)
                 (DrawRectangle (checkTileFile * g) (checkTileRank * g) g g c))) r))"

text \<open>The two loops of \<^verbatim>\<open>drawRankFile\<close> over the index and the symbol.\<close>

definition drawFileSymbol :: "Options \<Rightarrow> int \<Rightarrow> nat \<times> char \<Rightarrow> ggContext \<Rightarrow> ggContext" where
  "drawFileSymbol o' g = (\<lambda>(i, symbol) c.
     (let color = (if go_mod (int i) 2 = 0 then colorLight else colorDark)
      in DrawString [symbol] (g * int i + 2) (BoardSize o' - 3)
           (SetRGB255 (color ! 0) (color ! 1) (color ! 2) c)))"

definition drawRankSymbol :: "Options \<Rightarrow> int \<Rightarrow> nat \<times> char \<Rightarrow> ggContext \<Rightarrow> ggContext" where
  "drawRankSymbol o' g = (\<lambda>(i, symbol) c.
     (let color = (if go_mod (int i) 2 = 0 then colorLight else colorDark)
      in DrawString [symbol] (BoardSize o' - 10) (g * int i + 12)
           (SetRGB255 (color ! 0) (color ! 1) (color ! 2) c)))"

definition drawRankFile :: "Options \<Rightarrow> Renderer \<Rightarrow> error option \<times> Renderer" where
  "drawRankFile o' r =
     (let g = gridSize (drawSize r);
          r1 = onContext (SetFontFace ''Face7x13'') r;
          r2 = onContext
                 (fold (drawFileSymbol o' g)
                    (enumerate 0 (if Inverted o' then fileSymbolsReverse else fileSymbols))) r1;
          r3 = onContext
                 (fold (drawRankSymbol o' g)
                    (enumerate 0 (if Inverted o' then rankSymbols else rankSymbolsReverse))) r2
      in (None, r3))"

text \<open>
  The second test of \<^verbatim>\<open>err\<close> in \<^verbatim>\<open>drawPiece\<close> follows the first with no assignment
  between them: \<^verbatim>\<open>log.Fatal\<close> is never reached.
\<close>

definition drawPiece ::
  "FS \<Rightarrow> position \<Rightarrow> FS option \<Rightarrow> string \<Rightarrow> scaler option \<Rightarrow> bool \<Rightarrow> Renderer
     \<Rightarrow> error option \<times> Renderer" where
  "drawPiece assets piece fs assetPath resizer inverted r =
     (case loadPNG assets fs (assetPath @ pieceNames (pieceSymbol piece)) of
        Inl err \<Rightarrow> (Some err, r)
      | Inr png \<Rightarrow>
          (let resized = resizeImage png (drawSize r) resizer;
               g = gridSize (drawSize r);
               off = pieceOffset (drawSize r);
               (pieceRank, pieceFile) =
                 (if inverted
                  then (rankInverted (tile piece), fileInverted (tile piece))
                  else (rank (tile piece), fileT (tile piece)))
           in (None, onContext (DrawImage resized (g * pieceRank + off) (g * pieceFile + off)) r)))"

text \<open>The loop of \<^verbatim>\<open>drawBoard\<close> over the positions, left at the first error.\<close>

fun drawPositions :: "FS \<Rightarrow> Options \<Rightarrow> position list \<Rightarrow> Renderer \<Rightarrow> error option \<times> Renderer" where
  "drawPositions assets o' [] r = (None, r)"
| "drawPositions assets o' (p # ps) r =
     (case drawPiece assets p (FileSystem o') (AssetPath o') (Resizer o') (Inverted o') r of
        (Some err, r') \<Rightarrow> (Some err, r')
      | (None, r') \<Rightarrow> drawPositions assets o' ps r')"

definition drawBoard :: "FS \<Rightarrow> Options \<Rightarrow> Renderer \<Rightarrow> error option \<times> Renderer" where
  "drawBoard assets o' r = drawPositions assets o' (board r) r"

text \<open>The first three statements of \<^verbatim>\<open>Render\<close>: the defaults of the options.\<close>

definition applyDefaults :: "Options \<Rightarrow> Options" where
  "applyDefaults options =
     (let o1 = (if BoardSize options \<le> 0
                then options\<lparr>BoardSize := defaultBoardSize\<rparr> else options);
          o2 = (if f64_le_zero (PieceRatio o1)
                then o1\<lparr>PieceRatio := defaultPieceRatio\<rparr> else o1)
      in if Resizer o2 = None then o2\<lparr>Resizer := Some CatmullRom\<rparr> else o2)"

text \<open>
  \<^verbatim>\<open>Render\<close> returns the image or the error, and leaves the renderer with the draw size
  and the context of this call.  A panic is an error of its own here; it leaves the
  renderer as it was when it was raised.
\<close>

definition Render :: "FS \<Rightarrow> Options \<Rightarrow> Renderer \<Rightarrow> (error + image) \<times> Renderer" where
  "Render assets options0 r0 =
     (let options = applyDefaults options0;
          r1 = r0\<lparr>drawSize := calcDrawSize options\<rparr>
      in case NewContext (BoardSize options) (BoardSize options) of
           Inl err \<Rightarrow> (Inl err, r1)
         | Inr c \<Rightarrow>
             (let r2 = r1\<lparr>contextP := Some c\<rparr>;
                  r3 = drawBackground r2;
                  r4 = highlightCells options r3;
                  r5 = drawCheckTile options r4;
                  r6 = snd (drawRankFile options r5)
              in case drawBoard assets options r6 of
                   (Some err, r7) \<Rightarrow> (Inl err, r7)
                 | (None, r7) \<Rightarrow>
                     (case contextP r7 of
                        Some c \<Rightarrow> (Inr (Image c), r7)
                      | None \<Rightarrow> (Inl NilPointer, r7))))"

section \<open>What each layer paints\<close>

text \<open>
  The operations each drawing method adds to the context, written as lists, so that the
  image of a render can be stated in one piece.  The lemmas of the section on the renderer
  prove that the methods above add exactly these.
\<close>

definition rgb255 :: "int list \<Rightarrow> rgba" where
  "rgb255 c = (c ! 0, c ! 1, c ! 2, 255)"

definition backgroundOps :: "int \<Rightarrow> drawop list" where
  "backgroundOps g =
     [FillPath [(row * g, col * g, g, g)]
        (rgb255 (if go_mod (col + row) 2 = 0 then colorLight else colorDark)).
      row \<leftarrow> [0, 1, 2, 3, 4, 5, 6, 7], col \<leftarrow> [0, 1, 2, 3, 4, 5, 6, 7]]"

text \<open>The file and the rank a layer reads from a tile, inverted or not.\<close>

definition tileFile :: "bool \<Rightarrow> Tile \<Rightarrow> int" where
  "tileFile inverted t = (if inverted then fileInverted t else fileT t)"

definition tileRank :: "bool \<Rightarrow> Tile \<Rightarrow> int" where
  "tileRank inverted t = (if inverted then rankInverted t else rank t)"

text \<open>The cell of a tile in the highlight layers.\<close>

definition tileRect :: "bool \<Rightarrow> int \<Rightarrow> Tile \<Rightarrow> rect" where
  "tileRect inverted g t = (tileFile inverted t * g, tileRank inverted t * g, g, g)"

definition highlightFill :: "bool \<Rightarrow> int \<Rightarrow> Tile \<Rightarrow> drawop" where
  "highlightFill inverted g t =
     FillPath [tileRect inverted g t]
       (rgb255 (if go_mod (tileRank inverted t) 2 \<noteq> go_mod (tileFile inverted t) 2
                then colorHighlightDark else colorHighlightLight))"

definition highlightOps :: "bool \<Rightarrow> int \<Rightarrow> LastMove option \<Rightarrow> drawop list" where
  "highlightOps inverted g lm =
     (case lm of
        None \<Rightarrow> []
      | Some m \<Rightarrow> [highlightFill inverted g (From m), highlightFill inverted g (To m)])"

definition checkOps :: "bool \<Rightarrow> int \<Rightarrow> Tile \<Rightarrow> drawop list" where
  "checkOps inverted g t =
     (if t = NoTile then [] else [FillPath [tileRect inverted g t] (rgb255 colorCheck)])"

definition labelColor :: "nat \<Rightarrow> rgba" where
  "labelColor i = rgb255 (if go_mod (int i) 2 = 0 then colorLight else colorDark)"

definition labelOps :: "Options \<Rightarrow> int \<Rightarrow> drawop list" where
  "labelOps o' g =
     map (\<lambda>(i, symbol). DrawnString [symbol] (g * int i + 2) (BoardSize o' - 3) (labelColor i))
       (enumerate 0 (if Inverted o' then fileSymbolsReverse else fileSymbols))
     @ map (\<lambda>(i, symbol). DrawnString [symbol] (BoardSize o' - 10) (g * int i + 12) (labelColor i))
         (enumerate 0 (if Inverted o' then rankSymbols else rankSymbolsReverse))"

definition pieceOp :: "Options \<Rightarrow> drawSize \<Rightarrow> position \<Rightarrow> png \<Rightarrow> drawop" where
  "pieceOp o' ds p im =
     DrawnImage (resizeImage im ds (Resizer o'))
       (gridSize ds * tileRank (Inverted o') (tile p) + pieceOffset ds)
       (gridSize ds * tileFile (Inverted o') (tile p) + pieceOffset ds)"

text \<open>The sprite of a position, as \<^verbatim>\<open>drawPiece\<close> loads it.\<close>

definition loadPiece :: "FS \<Rightarrow> Options \<Rightarrow> position \<Rightarrow> error + png" where
  "loadPiece assets o' p =
     loadPNG assets (FileSystem o') (AssetPath o' @ pieceNames (pieceSymbol p))"

text \<open>The sprites drawn before the first one that fails to load, and that first error.\<close>

fun pieceOps :: "FS \<Rightarrow> Options \<Rightarrow> drawSize \<Rightarrow> position list \<Rightarrow> drawop list" where
  "pieceOps assets o' ds [] = []"
| "pieceOps assets o' ds (p # ps) =
     (case loadPiece assets o' p of
        Inl err \<Rightarrow> []
      | Inr im \<Rightarrow> pieceOp o' ds p im # pieceOps assets o' ds ps)"

fun pieceError :: "FS \<Rightarrow> Options \<Rightarrow> position list \<Rightarrow> error option" where
  "pieceError assets o' [] = None"
| "pieceError assets o' (p # ps) =
     (case loadPiece assets o' p of
        Inl err \<Rightarrow> Some err
      | Inr im \<Rightarrow> pieceError assets o' ps)"

text \<open>The context a render ends with, given the options after their defaults.\<close>

definition renderedContext :: "FS \<Rightarrow> Options \<Rightarrow> Renderer \<Rightarrow> ggContext" where
  "renderedContext assets o' r =
     (let ds = calcDrawSize o'; g = gridSize ds
      in \<lparr>width = BoardSize o', height = BoardSize o', path = [],
          colour = rgb255 colorDark, fontFace = ''Face7x13'',
          ops = backgroundOps g
                @ highlightOps (Inverted o') g (lastMove r)
                @ checkOps (Inverted o') g (checkTile r)
                @ labelOps o' g
                @ pieceOps assets o' ds (board r)\<rparr>)"

text \<open>The options of \<^verbatim>\<open>chessimage.Options{}\<close>, every field at its zero value.\<close>

definition zeroOptions :: Options where
  "zeroOptions =
     \<lparr>FileSystem = None, AssetPath = [], Resizer = None, BoardSize = 0, PieceRatio = Finite 0 0,
      Inverted = False\<rparr>"

text \<open>
  What \<^verbatim>\<open>drawBackground\<close> paints when \<^verbatim>\<open>Render\<close> calls it: on the new context, with
  the draw size of the options (those with their defaults).
\<close>

definition backgroundLayer :: "Options \<Rightarrow> drawop list" where
  "backgroundLayer o' =
     (case NewContext (BoardSize o') (BoardSize o') of
        Inl err \<Rightarrow> []
      | Inr c0 \<Rightarrow>
          (case contextP
                  (drawBackground
                     \<lparr>contextP = Some c0, board = [], drawSize = calcDrawSize o',
                      checkTile = NoTile, lastMove = None\<rparr>) of
             None \<Rightarrow> []
           | Some c \<Rightarrow> ops c))"

text \<open>The grid size and the piece offset of a render with these options.\<close>

definition renderGrid :: "Options \<Rightarrow> int" where
  "renderGrid options = gridSize (calcDrawSize (applyDefaults options))"

definition renderOffset :: "Options \<Rightarrow> int" where
  "renderOffset options = pieceOffset (calcDrawSize (applyDefaults options))"

text \<open>What \<^verbatim>\<open>Render\<close> leaves painted on the context of the renderer.\<close>

definition paintedBy :: "FS \<Rightarrow> Options \<Rightarrow> Renderer \<Rightarrow> drawop list" where
  "paintedBy assets options r =
     (case contextP (snd (Render assets options r)) of None \<Rightarrow> [] | Some c \<Rightarrow> ops c)"

text \<open>
  Values to run the renderer on: an embedded sprite set with the king and the pawn, a file
  system of the caller's where the queen's file is not a PNG, and the renderer of three
  positions with the last move and the check tile that the command-line program sets.
\<close>

definition demoAssets :: FS where
  "demoAssets =
     map_of [(''assets/kd.png'', PngData (PNG 45 45 [])),
             (''assets/pl.png'', PngData (PNG 45 45 []))]"


definition demoRenderer :: Renderer where
  "demoRenderer =
     SetCheckTile E8 (SetLastMove \<lparr>From = D1, To = H5\<rparr>
       \<lparr>contextP = None,
        board = [\<lparr>tile = tileFromRankFile 0 4, pieceSymbol = ''k''\<rparr>,
                 \<lparr>tile = tileFromRankFile 3 7, pieceSymbol = ''Q''\<rparr>,
                 \<lparr>tile = tileFromRankFile 6 0, pieceSymbol = ''P''\<rparr>],
        drawSize = \<lparr>gridSize = 0, pieceSize = 0, pieceOffset = 0\<rparr>,
        checkTile = NoTile, lastMove = None\<rparr>)"

text \<open>The same renderer with one position: a king on the tile that is in check and moved from.\<close>

definition kingRenderer :: Renderer where
  "kingRenderer =
     demoRenderer\<lparr>board := [\<lparr>tile = E8, pieceSymbol = ''k''\<rparr>],
                    lastMove := Some \<lparr>From = E8, To = H5\<rparr>\<rparr>"

section \<open>Properties of the tiles\<close>

lemma go_div_nonneg: "0 \<le> a \<Longrightarrow> 0 < b \<Longrightarrow> go_div a b = a div b"
  by (simp add: go_div_def)

lemma go_mod_nonneg: "0 \<le> a \<Longrightarrow> 0 < b \<Longrightarrow> go_mod a b = a mod b"
  by (simp add: go_mod_def go_div_nonneg minus_mult_div_eq_mod)

lemma sint_tileFromRankFile:
  assumes "- 128 \<le> fl * 8 + rnk" and "fl * 8 + rnk < 128"
  shows "sint (tileFromRankFile rnk fl) = fl * 8 + rnk"
  unfolding tileFromRankFile_def using assms
  by (subst sint_sbintrunc') (simp add: signed_take_bit_int_eq_self)

text \<open>
  What the constructor gives back through the projections, for \<open>rnk\<close> and \<open>fl\<close> from 0
  to 7: the two numbers, exchanged.
\<close>

lemma tileFromRankFile_projections:
  assumes "0 \<le> rnk" and "rnk \<le> 7" and "0 \<le> fl" and "fl \<le> 7"
  shows "rank (tileFromRankFile rnk fl) = fl" and "fileT (tileFromRankFile rnk fl) = rnk"
proof -
  have s: "sint (tileFromRankFile rnk fl) = fl * 8 + rnk"
    using assms by (intro sint_tileFromRankFile) auto
  show "rank (tileFromRankFile rnk fl) = fl"
    using assms by (simp add: rank_def s go_div_nonneg)
  show "fileT (tileFromRankFile rnk fl) = rnk"
    using assms by (simp add: fileT_def s go_mod_nonneg)
qed

text \<open>
  Claim C2.  The tile built by \<^verbatim>\<open>tileFromRankFile(rank, file)\<close> should give \<^verbatim>\<open>rank\<close>
  back through \<^verbatim>\<open>rank()\<close> and \<^verbatim>\<open>file\<close> through \<^verbatim>\<open>file()\<close>.  The code does not: the
  tile built from rank 1 and file 0 is the tile 1, whose \<^verbatim>\<open>rank()\<close> is 0 and whose
  \<^verbatim>\<open>file()\<close> is 1.
\<close>

theorem tileFromRankFile_roundtrip_fails:
  "tileFromRankFile 1 0 = B8
   \<and> rank (tileFromRankFile 1 0) = 0 \<and> fileT (tileFromRankFile 1 0) = 1"
  by (simp add: rank_def fileT_def tileFromRankFile_def B8_def go_div_def go_mod_def)

text \<open>
  Claim C3, as stated: \<^verbatim>\<open>file()\<close> is the index divided by 8 and \<^verbatim>\<open>rank()\<close> the index
  modulo 8.  It fails at the tile \<^verbatim>\<open>B8\<close>, of index 1.
\<close>

theorem file_div_rank_mod_counterexample:
  "fileT B8 \<noteq> sint B8 div 8 \<and> rank B8 \<noteq> sint B8 mod 8"
  by (simp add: rank_def fileT_def B8_def go_div_def go_mod_def)

text \<open>
  Claim C3, amended: for every tile of index from 0 to 63, \<^verbatim>\<open>file()\<close> is the index
  modulo 8 and \<^verbatim>\<open>rank()\<close> is the index divided by 8.
\<close>

theorem file_mod_rank_div:
  assumes "0 \<le> sint t" and "sint t \<le> 63"
  shows "fileT t = sint t mod 8 \<and> rank t = sint t div 8"
  using assms by (simp add: rank_def fileT_def go_div_nonneg go_mod_nonneg)

theorem file_mod_rank_div_witness:
  "0 \<le> sint E5 \<and> sint E5 \<le> 63 \<and> fileT E5 = sint E5 mod 8 \<and> rank E5 = sint E5 div 8"
proof -
  have h: "0 \<le> sint E5" "sint E5 \<le> 63" by (simp_all add: E5_def)
  show ?thesis using h file_mod_rank_div [OF h] by simp
qed

lemma tileMap_names: "map fst tileMap = squareNames"
  by (simp add: tileMap_def squareNames_def)

text \<open>
  Claim C8.  \<^verbatim>\<open>TileFromAN("e5")\<close> returns no error and the tile whose \<^verbatim>\<open>rank()\<close> is 3
  and whose \<^verbatim>\<open>file()\<close> is 4; every string that is not one of the 64 names of the
  squares, \<^verbatim>\<open>"z9"\<close> among them, gets the error that the tile was not found.
\<close>

theorem TileFromAN_e5_and_unknown:
  "snd (TileFromAN ''e5'') = None
   \<and> rank (fst (TileFromAN ''e5'')) = 3 \<and> fileT (fst (TileFromAN ''e5'')) = 4
   \<and> (\<forall>an. an \<notin> set squareNames \<longrightarrow> TileFromAN an = (NoTile, Some (TileNotFound an)))
   \<and> TileFromAN ''z9'' = (NoTile, Some (TileNotFound ''z9''))"
proof -
  have e5: "TileFromAN ''e5'' = (E5, None)"
    by (simp add: TileFromAN_def tileMap_def)
  have unknown: "TileFromAN an = (NoTile, Some (TileNotFound an))" if "an \<notin> set squareNames" for an
  proof -
    from that have "an \<notin> fst ` set tileMap"
      by (simp add: tileMap_names [symmetric])
    then have "map_of tileMap an = None" by (simp add: map_of_eq_None_iff)
    then show ?thesis by (simp add: TileFromAN_def)
  qed
  have z9: "''z9'' \<notin> set squareNames" by (simp add: squareNames_def)
  show ?thesis
    using unknown [OF z9] unknown
    by (simp add: e5 rank_def fileT_def E5_def go_div_def go_mod_def)
qed

theorem TileFromAN_unknown_witness:
  "''e55'' \<notin> set squareNames \<and> TileFromAN ''e55'' = (NoTile, Some (TileNotFound ''e55''))"
proof -
  have h: "''e55'' \<notin> set squareNames" by (simp add: squareNames_def)
  from TileFromAN_e5_and_unknown
  have "\<forall>an. an \<notin> set squareNames \<longrightarrow> TileFromAN an = (NoTile, Some (TileNotFound an))"
    by blast
  with h show ?thesis by simp
qed

section \<open>Properties of the renderer\<close>

text \<open>
  Each drawing method, run on a renderer whose context is allocated and whose path is
  empty, adds the operations of its layer and nothing else.
\<close>

lemma drawBackground_eq:
  assumes "contextP r = Some c" and "path c = []"
  shows "drawBackground r =
    r\<lparr>contextP := Some (c\<lparr>colour := rgb255 colorLight, ops := ops c @ backgroundOps (gridSize (drawSize r)), path := []\<rparr>)\<rparr>"
  using assms
  by (simp add: drawBackground_def onContext_def drawCell_def Let_def backgroundOps_def
      DrawRectangle_def SetRGB255_def Fill_def rgb255_def go_mod_def go_div_def)

lemma highlightCells_eq:
  assumes "contextP r = Some c" and "path c = []"
  shows "highlightCells o' r =
    r\<lparr>contextP := Some (c\<lparr>
       colour := (case lastMove r of None \<Rightarrow> colour c
                  | Some m \<Rightarrow>
                      rgb255 (if go_mod (tileRank (Inverted o') (To m)) 2
                                 \<noteq> go_mod (tileFile (Inverted o') (To m)) 2
                              then colorHighlightDark else colorHighlightLight)),
       ops := ops c @ highlightOps (Inverted o') (gridSize (drawSize r)) (lastMove r), path := []\<rparr>)\<rparr>"
proof (cases "lastMove r")
  case None
  then show ?thesis using assms
    by (simp add: highlightCells_def highlightOps_def)
next
  case (Some m)
  then show ?thesis using assms
    by (simp add: highlightCells_def highlightOps_def highlightFill_def tileRect_def onContext_def Let_def
        tileFile_def tileRank_def DrawRectangle_def SetRGB255_def Fill_def rgb255_def)
qed

lemma drawCheckTile_eq:
  assumes "contextP r = Some c" and "path c = []"
  shows "drawCheckTile o' r =
    r\<lparr>contextP := Some (c\<lparr>
       colour := (if checkTile r = NoTile then colour c else rgb255 colorCheck),
       ops := ops c @ checkOps (Inverted o') (gridSize (drawSize r)) (checkTile r), path := []\<rparr>)\<rparr>"
  using assms
  by (simp add: drawCheckTile_def checkOps_def tileRect_def onContext_def Let_def
        tileFile_def tileRank_def DrawRectangle_def SetRGB255_def Fill_def rgb255_def)

lemma drawRankFile_eq:
  assumes "contextP r = Some c"
  shows "drawRankFile o' r =
    (None, r\<lparr>contextP := Some (c\<lparr>fontFace := ''Face7x13'', colour := rgb255 colorDark,
       ops := ops c @ labelOps o' (gridSize (drawSize r))\<rparr>)\<rparr>)"
  using assms
  by (simp add: drawRankFile_def labelOps_def labelColor_def onContext_def Let_def
        drawFileSymbol_def drawRankSymbol_def fileSymbols_def fileSymbolsReverse_def
        rankSymbols_def rankSymbolsReverse_def
        SetFontFace_def SetRGB255_def DrawString_def rgb255_def go_mod_def go_div_def)

lemma drawPositions_eq:
  assumes "contextP r = Some c"
  shows "drawPositions assets o' ps r =
    (pieceError assets o' ps,
     r\<lparr>contextP := Some (c\<lparr>ops := ops c @ pieceOps assets o' (drawSize r) ps\<rparr>)\<rparr>)"
  using assms
proof (induction ps arbitrary: r c)
  case Nil
  then show ?case by simp
next
  case (Cons p ps)
  show ?case
  proof (cases "loadPiece assets o' p")
    case (Inl e)
    then show ?thesis using Cons.prems
      by (simp add: drawPiece_def loadPiece_def)
  next
    case (Inr im)
    let ?c' = "c\<lparr>ops := ops c @ [pieceOp o' (drawSize r) p im]\<rparr>"
    let ?r' = "r\<lparr>contextP := Some ?c'\<rparr>"
    have step: "drawPiece assets p (FileSystem o') (AssetPath o') (Resizer o') (Inverted o') r
                  = (None, ?r')"
      using Inr Cons.prems
      by (simp add: drawPiece_def loadPiece_def pieceOp_def onContext_def Let_def
          DrawImage_def tileFile_def tileRank_def split: if_splits)
    have "contextP ?r' = Some ?c'" by simp
    from Cons.IH [OF this] show ?thesis using Inr step by simp
  qed
qed


text \<open>
  \<^verbatim>\<open>Render\<close> in one piece: the error of the first sprite that fails to load, or else the
  image of the context; and in both cases the renderer it leaves behind.
\<close>

lemma BoardSize_applyDefaults_pos: "0 < BoardSize (applyDefaults options)"
  by (simp add: applyDefaults_def Let_def defaultBoardSize_def)

text \<open>A square image of \<open>2 ^ 48\<close> bytes or fewer has a side below \<open>2 ^ 62\<close>.\<close>

lemma side_of_allocated:
  fixes a :: int
  assumes "0 \<le> a" and "4 * a * a \<le> 2 ^ 48"
  shows "a < 2 ^ 62"
proof (rule ccontr)
  assume "\<not> a < 2 ^ 62"
  then have a: "2 ^ 62 \<le> a" by simp
  then have "1 \<le> a" by simp
  from mult_mono [OF a this] assms(1) have "2 ^ 62 * 1 \<le> a * a" by simp
  then have "2 ^ 64 \<le> 4 * a * a" by simp
  with assms(2) show False by simp
qed

lemma NewContext_square:
  assumes "0 < b"
  shows "NewContext b b = (if 2 ^ 48 < 4 * b * b then Inl HugeImage else Inr (freshContext b b))"
proof (cases "2 ^ 48 < 4 * b * b")
  case True
  then show ?thesis using assms by (simp add: NewContext_def)
next
  case False
  then have "4 * b * b \<le> 2 ^ 48" by simp
  from side_of_allocated [OF _ this] assms have "b < 2 ^ 62" by simp
  then show ?thesis using False assms by (simp add: NewContext_def)
qed

lemma Render_eq:
  "Render assets options0 r =
     (if 2 ^ 48 < 4 * BoardSize (applyDefaults options0) * BoardSize (applyDefaults options0)
      then (Inl HugeImage, r\<lparr>drawSize := calcDrawSize (applyDefaults options0)\<rparr>)
      else
        ((case pieceError assets (applyDefaults options0) (board r) of
            Some err \<Rightarrow> Inl err
          | None \<Rightarrow> Inr (Image (renderedContext assets (applyDefaults options0) r))),
         r\<lparr>drawSize := calcDrawSize (applyDefaults options0),
           contextP := Some (renderedContext assets (applyDefaults options0) r)\<rparr>))"
proof (cases "2 ^ 48 < 4 * BoardSize (applyDefaults options0) * BoardSize (applyDefaults options0)")
  case True
  then have "NewContext (BoardSize (applyDefaults options0)) (BoardSize (applyDefaults options0))
               = Inl HugeImage"
    using NewContext_square [OF BoardSize_applyDefaults_pos [of options0]] by simp
  then show ?thesis using True by (simp add: Render_def Let_def)
next
  case False
  define o' where "o' = applyDefaults options0"
  define ds where "ds = calcDrawSize o'"
  define g where "g = gridSize ds"
  define c0 where "c0 = freshContext (BoardSize o') (BoardSize o')"
  define r2 where "r2 = r\<lparr>drawSize := ds, contextP := Some c0\<rparr>"
  define c3 where "c3 = c0\<lparr>colour := rgb255 colorLight, ops := ops c0 @ backgroundOps g, path := []\<rparr>"
  define c4 where "c4 = c3\<lparr>
       colour := (case lastMove r of None \<Rightarrow> colour c3
                  | Some m \<Rightarrow>
                      rgb255 (if go_mod (tileRank (Inverted o') (To m)) 2
                                 \<noteq> go_mod (tileFile (Inverted o') (To m)) 2
                              then colorHighlightDark else colorHighlightLight)),
       ops := ops c3 @ highlightOps (Inverted o') g (lastMove r), path := []\<rparr>"
  define c5 where "c5 = c4\<lparr>
       colour := (if checkTile r = NoTile then colour c4 else rgb255 colorCheck),
       ops := ops c4 @ checkOps (Inverted o') g (checkTile r), path := []\<rparr>"
  define c6 where "c6 = c5\<lparr>fontFace := ''Face7x13'', colour := rgb255 colorDark,
       ops := ops c5 @ labelOps o' g\<rparr>"
  define c7 where "c7 = c6\<lparr>ops := ops c6 @ pieceOps assets o' ds (board r)\<rparr>"
  have new: "NewContext (BoardSize o') (BoardSize o') = Inr c0"
    using False NewContext_square [OF BoardSize_applyDefaults_pos [of options0]]
    by (simp add: o'_def c0_def)
  have r2: "contextP r2 = Some c0" "path c0 = []" "drawSize r2 = ds" "lastMove r2 = lastMove r"
    "checkTile r2 = checkTile r" "board r2 = board r"
    by (simp_all add: r2_def c0_def freshContext_def)
  have b3: "drawBackground r2 = r2\<lparr>contextP := Some c3\<rparr>"
    using drawBackground_eq [OF r2(1,2)] by (simp add: c3_def r2(3) g_def)
  have p3: "contextP (r2\<lparr>contextP := Some c3\<rparr>) = Some c3" "path c3 = []"
    by (simp_all add: c3_def)
  have b4: "highlightCells o' (r2\<lparr>contextP := Some c3\<rparr>) = r2\<lparr>contextP := Some c4\<rparr>"
    using highlightCells_eq [OF p3, of o'] by (simp add: c4_def r2 g_def)
  have p4: "contextP (r2\<lparr>contextP := Some c4\<rparr>) = Some c4" "path c4 = []"
    by (simp_all add: c4_def)
  have b5: "drawCheckTile o' (r2\<lparr>contextP := Some c4\<rparr>) = r2\<lparr>contextP := Some c5\<rparr>"
    using drawCheckTile_eq [OF p4, of o'] by (simp add: c5_def r2 g_def)
  have p5: "contextP (r2\<lparr>contextP := Some c5\<rparr>) = Some c5" by simp
  have b6: "drawRankFile o' (r2\<lparr>contextP := Some c5\<rparr>) = (None, r2\<lparr>contextP := Some c6\<rparr>)"
    using drawRankFile_eq [OF p5, of o'] by (simp add: c6_def r2 g_def)
  have p6: "contextP (r2\<lparr>contextP := Some c6\<rparr>) = Some c6" by simp
  have b7: "drawBoard assets o' (r2\<lparr>contextP := Some c6\<rparr>)
              = (pieceError assets o' (board r), r2\<lparr>contextP := Some c7\<rparr>)"
    using drawPositions_eq [OF p6, of assets o' "board r"]
    by (simp add: drawBoard_def c7_def r2)
  have c7: "c7 = renderedContext assets o' r"
    by (simp add: renderedContext_def Let_def c7_def c6_def c5_def c4_def c3_def c0_def
        freshContext_def ds_def g_def)
  have "Render assets options0 r =
     (case drawBoard assets o' (r2\<lparr>contextP := Some c6\<rparr>) of
           (Some err, r7) \<Rightarrow> (Inl err, r7)
         | (None, r7) \<Rightarrow>
             (case contextP r7 of
                Some c \<Rightarrow> (Inr (Image c), r7)
              | None \<Rightarrow> (Inl NilPointer, r7)))"
    unfolding Render_def Let_def
    by (simp only: o'_def [symmetric] ds_def [symmetric] new sum.case)
       (simp add: r2_def [symmetric] b3 b4 b5 b6)
  also have "\<dots> = ((case pieceError assets o' (board r) of
         Some err \<Rightarrow> Inl err
       | None \<Rightarrow> Inr (Image c7)), r2\<lparr>contextP := Some c7\<rparr>)"
    by (simp add: b7 split: option.splits)
  finally show ?thesis
    using False unfolding c7 r2_def o'_def ds_def by simp
qed

section \<open>Options and geometry\<close>

lemma f64_trunc_nonneg: "0 \<le> m \<Longrightarrow> f64_trunc m e = \<lfloor>f64_val (Finite m e)\<rfloor>"
proof (cases "0 \<le> e")
  case True
  have "\<lfloor>real_of_int m * 2 ^ nat e\<rfloor> = \<lfloor>real_of_int (m * 2 ^ nat e)\<rfloor>" by simp
  then show ?thesis using True by (simp add: f64_trunc_def f64_val_def del: of_int_mult)
next
  case False
  assume "0 \<le> m"
  have "\<lfloor>real_of_int m / 2 ^ nat (- e)\<rfloor> = m div 2 ^ nat (- e)"
    using floor_divide_of_int_eq [where ?'a = real, of m "2 ^ nat (- e)"] by simp
  then show ?thesis using False \<open>0 \<le> m\<close> by (simp add: f64_trunc_def f64_val_def)
qed

lemma roundHalfEven_nonneg: "0 \<le> M \<Longrightarrow> 0 \<le> roundHalfEven M s"
  by (simp add: roundHalfEven_def Let_def pos_imp_zdiv_nonneg_iff)

lemma round64_nonneg:
  assumes "0 \<le> M" and "round64 M e = Finite m' e'"
  shows "0 \<le> m'"
  using assms roundHalfEven_nonneg [OF assms(1)]
  by (auto simp add: round64_def Let_def split: if_splits)

text \<open>
  The product of a grid size and a positive ratio that fits an \<^verbatim>\<open>int\<close> is finite and not
  negative, so its conversion is its floor.
\<close>

lemma f64_of_int_mul_nonneg:
  assumes "0 \<le> g" and "0 < m" and "fitsInt (f64_mul (f64_of_int g) (Finite m e))"
  shows "\<exists>m' e'. f64_mul (f64_of_int g) (Finite m e) = Finite m' e' \<and> 0 \<le> m'"
proof (cases "f64_of_int g")
  case (Finite m1 e1)
  then have m1: "0 \<le> m1" using round64_nonneg [OF assms(1)] by (simp add: f64_of_int_def)
  from assms(3) Finite obtain m' e' where p: "round64 (m1 * m) (e1 + e) = Finite m' e'"
    by (cases "round64 (m1 * m) (e1 + e)") (simp_all add: fitsInt_def)
  have "0 \<le> m1 * m" using m1 assms(2) by simp
  from round64_nonneg [OF this p] show ?thesis using Finite p by simp
next
  case PosInf
  then show ?thesis using assms by (simp add: fitsInt_def)
next
  case NegInf
  then show ?thesis using assms by (simp add: fitsInt_def)
next
  case NaN
  then show ?thesis using assms by (simp add: fitsInt_def)
qed

lemma go_int_floor:
  assumes "0 \<le> g" and "0 < m" and "fitsInt (f64_mul (f64_of_int g) (Finite m e))"
  shows "go_int (f64_mul (f64_of_int g) (Finite m e))
           = \<lfloor>f64_val (f64_mul (f64_of_int g) (Finite m e))\<rfloor>"
    and "0 \<le> go_int (f64_mul (f64_of_int g) (Finite m e))"
    and "go_int (f64_mul (f64_of_int g) (Finite m e)) < 2 ^ 63"
proof -
  from f64_of_int_mul_nonneg [OF assms] obtain m' e'
    where p: "f64_mul (f64_of_int g) (Finite m e) = Finite m' e'" and m': "0 \<le> m'" by blast
  have g: "go_int (Finite m' e') = f64_trunc m' e'"
    using assms(3) by (simp add: go_int_def p)
  show "go_int (f64_mul (f64_of_int g) (Finite m e))
           = \<lfloor>f64_val (f64_mul (f64_of_int g) (Finite m e))\<rfloor>"
    unfolding p g by (rule f64_trunc_nonneg [OF m'])
  have "0 \<le> f64_trunc m' e'" using m' by (simp add: f64_trunc_def pos_imp_zdiv_nonneg_iff)
  then show "0 \<le> go_int (f64_mul (f64_of_int g) (Finite m e))" unfolding p g .
  show "go_int (f64_mul (f64_of_int g) (Finite m e)) < 2 ^ 63"
    unfolding p g using assms(3) by (simp add: p fitsInt_def)
qed

lemma int64_id: "- (2 ^ 63) \<le> x \<Longrightarrow> x < 2 ^ 63 \<Longrightarrow> int64 x = x"
  by (simp add: int64_def)

lemma go_div_2_floor: "0 \<le> a \<Longrightarrow> go_div a 2 = \<lfloor>real_of_int a / 2\<rfloor>"
  by (simp add: go_div_nonneg floor_divide_of_int_eq [where ?'a = real, of a 2, simplified])

lemma go_div_2_ceiling: "a < 0 \<Longrightarrow> go_div a 2 = \<lceil>real_of_int a / 2\<rceil>"
proof -
  assume a: "a < 0"
  have "go_div a 2 = - ((- a) div 2)" using a by (simp add: go_div_def)
  also have "\<dots> = - \<lfloor>real_of_int (- a) / 2\<rfloor>"
    by (simp add: floor_divide_of_int_eq [where ?'a = real, of "- a" 2, simplified])
  also have "\<dots> = \<lceil>real_of_int a / 2\<rceil>"
    by (simp add: ceiling_def)
  finally show ?thesis .
qed

lemma f64_le_zero_Finite: "f64_le_zero (Finite m e) \<longleftrightarrow> f64_val (Finite m e) \<le> 0"
proof -
  have p: "\<not> (2::real) ^ k \<le> 0" for k :: nat by (simp add: not_le)
  show ?thesis
    by (simp add: f64_le_zero_def f64_val_def mult_le_0_iff divide_le_0_iff p)
qed

lemma applyDefaults_idem: "applyDefaults (applyDefaults options) = applyDefaults options"
  by (simp add: applyDefaults_def Let_def defaultBoardSize_def defaultPieceRatio_def
      f64_le_zero_def)

text \<open>The pixels the background covers: those of the 8 by 8 cells.\<close>

lemma fillColourAt_None_iff:
  "fillColourAt os p = None \<longleftrightarrow> (\<forall>x\<in>set os. \<not> fillCovers x p)"
proof (induction os)
  case Nil
  then show ?case by simp
next
  case (Cons x os)
  then show ?case by (cases x; cases "fillColourAt os p") auto
qed

lemma Bex_comprehension:
  "(\<exists>x\<in>set (concat (map (\<lambda>r. map (f r) cs) rs)). P x)
     \<longleftrightarrow> (\<exists>r\<in>set rs. \<exists>c\<in>set cs. P (f r c))"
  by auto

lemma cell_of_coordinate:
  assumes "0 < g"
  shows "(\<exists>k\<in>set [0, 1, 2, 3, 4, 5, 6, 7 :: int]. k * g \<le> x \<and> x < k * g + g)
           \<longleftrightarrow> 0 \<le> x \<and> x < 8 * g"
  using assms by simp arith

lemma backgroundOps_covered:
  assumes "0 < g"
  shows "fillColourAt (backgroundOps g) (x, y) = None
           \<longleftrightarrow> \<not> (0 \<le> x \<and> x < 8 * g \<and> 0 \<le> y \<and> y < 8 * g)"
proof -
  have "(\<exists>op\<in>set (backgroundOps g). fillCovers op (x, y))
        \<longleftrightarrow> (\<exists>row\<in>set [0, 1, 2, 3, 4, 5, 6, 7 :: int].
             \<exists>col\<in>set [0, 1, 2, 3, 4, 5, 6, 7 :: int].
               row * g \<le> x \<and> x < row * g + g \<and> col * g \<le> y \<and> y < col * g + g)"
    unfolding backgroundOps_def
    by (simp only: Bex_comprehension fillCovers.simps list_ex_Cons_iff list_ex_Nil_iff
        covers.simps simp_thms conj_assoc)
  also have "\<dots> \<longleftrightarrow>
        (\<exists>row\<in>set [0, 1, 2, 3, 4, 5, 6, 7 :: int]. row * g \<le> x \<and> x < row * g + g)
        \<and> (\<exists>col\<in>set [0, 1, 2, 3, 4, 5, 6, 7 :: int]. col * g \<le> y \<and> y < col * g + g)"
    by blast
  finally show ?thesis
    unfolding fillColourAt_None_iff cell_of_coordinate [OF assms] by blast
qed

lemma backgroundLayer_eq:
  assumes "4 * \<bar>BoardSize o'\<bar> * \<bar>BoardSize o'\<bar> \<le> 2 ^ 48"
  shows "backgroundLayer o' = backgroundOps (gridSize (calcDrawSize o'))"
proof -
  let ?c = "freshContext \<bar>BoardSize o'\<bar> \<bar>BoardSize o'\<bar>"
  let ?r = "\<lparr>contextP = Some ?c, board = [], drawSize = calcDrawSize o',
             checkTile = NoTile, lastMove = None\<rparr>"
  have "\<bar>BoardSize o'\<bar> < 2 ^ 62"
    using side_of_allocated [OF _ assms] by simp
  then have new: "NewContext (BoardSize o') (BoardSize o') = Inr ?c"
    using assms by (simp add: NewContext_def)
  have "contextP ?r = Some ?c" and "path ?c = []" by (simp_all add: freshContext_def)
  from drawBackground_eq [OF this] show ?thesis
    by (simp add: backgroundLayer_def new freshContext_def)
qed

text \<open>
  Claim C6.  For every options value passed to \<^verbatim>\<open>Render\<close>: the effective board size is
  512 when \<^verbatim>\<open>BoardSize\<close> is not positive and \<^verbatim>\<open>BoardSize\<close> otherwise; the effective
  ratio is the \<^verbatim>\<open>float64\<close> nearest to 0.9 when \<^verbatim>\<open>PieceRatio <= 0\<close> (for a finite ratio:
  when its value is not positive) and \<^verbatim>\<open>PieceRatio\<close> otherwise; the defaults applied
  twice are the defaults applied once, with the same draw size; the draw size \<^verbatim>\<open>Render\<close>
  leaves in the renderer is that of the effective options, and rendering with the
  effective options is rendering with the given ones.
\<close>

theorem Render_defaults:
  "BoardSize (applyDefaults options) = (if BoardSize options \<le> 0 then 512 else BoardSize options)
   \<and> PieceRatio (applyDefaults options)
       = (if f64_le_zero (PieceRatio options) then defaultPieceRatio else PieceRatio options)
   \<and> (\<forall>m e. PieceRatio options = Finite m e \<longrightarrow>
         (f64_le_zero (PieceRatio options) \<longleftrightarrow> f64_val (PieceRatio options) \<le> 0))
   \<and> isFloat64 defaultPieceRatio \<and> \<bar>f64_val defaultPieceRatio - 9 / 10\<bar> \<le> 1 / 2 ^ 54
   \<and> applyDefaults (applyDefaults options) = applyDefaults options
   \<and> calcDrawSize (applyDefaults (applyDefaults options)) = calcDrawSize (applyDefaults options)
   \<and> drawSize (snd (Render assets options r)) = calcDrawSize (applyDefaults options)
   \<and> Render assets (applyDefaults options) r = Render assets options r"
proof -
  have b: "BoardSize (applyDefaults options)
             = (if BoardSize options \<le> 0 then 512 else BoardSize options)"
    by (simp add: applyDefaults_def Let_def defaultBoardSize_def)
  have p: "PieceRatio (applyDefaults options)
             = (if f64_le_zero (PieceRatio options) then defaultPieceRatio
                else PieceRatio options)"
    by (simp add: applyDefaults_def Let_def)
  have z: "\<forall>m e. PieceRatio options = Finite m e \<longrightarrow>
         (f64_le_zero (PieceRatio options) \<longleftrightarrow> f64_val (PieceRatio options) \<le> 0)"
    by (simp add: f64_le_zero_Finite)
  have n: "isFloat64 defaultPieceRatio" "\<bar>f64_val defaultPieceRatio - 9 / 10\<bar> \<le> 1 / 2 ^ 54"
    by (simp_all add: isFloat64_def f64_val_def defaultPieceRatio_def)
  have d: "drawSize (snd (Render assets options r)) = calcDrawSize (applyDefaults options)"
    by (simp add: Render_eq)
  have r: "Render assets (applyDefaults options) r = Render assets options r"
    by (simp only: Render_eq applyDefaults_idem)
  from b p z n d r show ?thesis by (simp only: applyDefaults_idem simp_thms)
qed

theorem Render_defaults_witness:
  "BoardSize (applyDefaults zeroOptions) = 512
   \<and> PieceRatio (applyDefaults zeroOptions) = defaultPieceRatio
   \<and> calcDrawSize (applyDefaults (applyDefaults zeroOptions))
       = calcDrawSize (applyDefaults zeroOptions)
   \<and> PieceRatio (zeroOptions\<lparr>BoardSize := 500, PieceRatio := Finite 1 (- 1)\<rparr>) = Finite 1 (- 1)
   \<and> \<not> f64_val (PieceRatio (zeroOptions\<lparr>BoardSize := 500, PieceRatio := Finite 1 (- 1)\<rparr>)) \<le> 0
   \<and> BoardSize (applyDefaults (zeroOptions\<lparr>BoardSize := 500, PieceRatio := Finite 1 (- 1)\<rparr>))
       = 500
   \<and> PieceRatio (applyDefaults (zeroOptions\<lparr>BoardSize := 500, PieceRatio := Finite 1 (- 1)\<rparr>))
       = Finite 1 (- 1)"
  using Render_defaults [of zeroOptions]
    Render_defaults [of "zeroOptions\<lparr>BoardSize := 500, PieceRatio := Finite 1 (- 1)\<rparr>"]
  by (simp add: zeroOptions_def f64_le_zero_def f64_val_def)

text \<open>
  Claim C7, as stated: for every positive board size and ratio, the piece size is the
  floor of the grid size times the ratio and the piece offset is the floor of half the
  difference between the grid size and the piece size.  It fails in more than one way.  A board of
  16 pixels and a ratio of 1.5 give the grid size 2, the piece size 3 and the offset 0,
  where the floor of \<open>- 1 / 2\<close> is \<open>- 1\<close>.  A board of 80 pixels and the ratio \<^verbatim>\<open>0.7\<close> give
  the piece size 7, where the grid size times the number that the ratio holds is below 7:
  the product is rounded to a \<^verbatim>\<open>float64\<close> before its fraction is dropped.  A board of
  800 pixels and the ratio \<^verbatim>\<open>0.29\<close> give the piece size 28, where 100 times 29 hundredths
  is 29.  And a product that does not fit an \<^verbatim>\<open>int\<close> has no floor in the piece size: the
  default board and the ratio \<^verbatim>\<open>1e30\<close> give the least \<^verbatim>\<open>int\<close> on amd64.
\<close>

theorem calcDrawSize_floor_counterexample:
  "0 < BoardSize (zeroOptions\<lparr>BoardSize := 16, PieceRatio := Finite 3 (- 1)\<rparr>)
   \<and> f64_val (PieceRatio (zeroOptions\<lparr>BoardSize := 16, PieceRatio := Finite 3 (- 1)\<rparr>)) = 3 / 2
   \<and> calcDrawSize (zeroOptions\<lparr>BoardSize := 16, PieceRatio := Finite 3 (- 1)\<rparr>)
       = \<lparr>gridSize = 2, pieceSize = 3, pieceOffset = 0\<rparr>
   \<and> \<lfloor>real_of_int (2 - 3) / 2\<rfloor> = - 1
   \<and> pieceOffset (calcDrawSize (zeroOptions\<lparr>BoardSize := 16, PieceRatio := Finite 3 (- 1)\<rparr>))
       \<noteq> \<lfloor>real_of_int
            (gridSize (calcDrawSize (zeroOptions\<lparr>BoardSize := 16, PieceRatio := Finite 3 (- 1)\<rparr>))
             - pieceSize
                 (calcDrawSize (zeroOptions\<lparr>BoardSize := 16, PieceRatio := Finite 3 (- 1)\<rparr>)))
          / 2\<rfloor>
   \<and> isFloat64 (Finite 6305039478318694 (- 53))
   \<and> \<bar>f64_val (Finite 6305039478318694 (- 53)) - 7 / 10\<bar> \<le> 1 / 2 ^ 54
   \<and> calcDrawSize (zeroOptions\<lparr>BoardSize := 80, PieceRatio := Finite 6305039478318694 (- 53)\<rparr>)
       = \<lparr>gridSize = 10, pieceSize = 7, pieceOffset = 1\<rparr>
   \<and> \<lfloor>real_of_int 10 * f64_val (Finite 6305039478318694 (- 53))\<rfloor> = 6
   \<and> pieceSize
         (calcDrawSize
            (zeroOptions\<lparr>BoardSize := 80, PieceRatio := Finite 6305039478318694 (- 53)\<rparr>))
       \<noteq> \<lfloor>real_of_int
            (gridSize
               (calcDrawSize
                  (zeroOptions\<lparr>BoardSize := 80, PieceRatio := Finite 6305039478318694 (- 53)\<rparr>)))
          * f64_val
              (PieceRatio
                 (zeroOptions\<lparr>BoardSize := 80, PieceRatio := Finite 6305039478318694 (- 53)\<rparr>))\<rfloor>
   \<and> isFloat64 (Finite 5224175567749775 (- 54))
   \<and> \<bar>f64_val (Finite 5224175567749775 (- 54)) - 29 / 100\<bar> \<le> 1 / 2 ^ 55
   \<and> calcDrawSize (zeroOptions\<lparr>BoardSize := 800, PieceRatio := Finite 5224175567749775 (- 54)\<rparr>)
       = \<lparr>gridSize = 100, pieceSize = 28, pieceOffset = 36\<rparr>
   \<and> \<lfloor>real_of_int 100 * (29 / 100)\<rfloor> = 29
   \<and> isFloat64 (Finite 7105427357601002 47)
   \<and> \<bar>f64_val (Finite 7105427357601002 47) - 10 ^ 30\<bar> \<le> 2 ^ 46
   \<and> calcDrawSize (zeroOptions\<lparr>BoardSize := 512, PieceRatio := Finite 7105427357601002 47\<rparr>)
       = \<lparr>gridSize = 64, pieceSize = - (2 ^ 63), pieceOffset = - 4611686018427387872\<rparr>"
proof -
  have a: "calcDrawSize (zeroOptions\<lparr>BoardSize := 16, PieceRatio := Finite 3 (- 1)\<rparr>)
       = \<lparr>gridSize = 2, pieceSize = 3, pieceOffset = 0\<rparr>"
    by code_simp
  have b: "calcDrawSize
             (zeroOptions\<lparr>BoardSize := 80, PieceRatio := Finite 6305039478318694 (- 53)\<rparr>)
       = \<lparr>gridSize = 10, pieceSize = 7, pieceOffset = 1\<rparr>"
    by code_simp
  have c: "calcDrawSize
             (zeroOptions\<lparr>BoardSize := 800, PieceRatio := Finite 5224175567749775 (- 54)\<rparr>)
       = \<lparr>gridSize = 100, pieceSize = 28, pieceOffset = 36\<rparr>"
    by code_simp
  have d: "calcDrawSize
             (zeroOptions\<lparr>BoardSize := 512, PieceRatio := Finite 7105427357601002 47\<rparr>)
       = \<lparr>gridSize = 64, pieceSize = - (2 ^ 63), pieceOffset = - 4611686018427387872\<rparr>"
    by code_simp
  show ?thesis
    unfolding a b c d by (simp add: zeroOptions_def f64_val_def isFloat64_def)
qed
text \<open>
  Rounding does not pass an integer below \<open>2 ^ 53\<close>: what is at most \<open>g\<close> before it is
  rounded to a \<^verbatim>\<open>float64\<close> is at most \<open>g\<close> after.
\<close>

lemma pow2_powr: "(2::real) ^ n = 2 powr real n"
  by (simp add: powr_realpow)

lemma powr2_split: "c = a + b \<Longrightarrow> (2::real) powr c = 2 powr a * 2 powr b"
  by (simp add: powr_add)

lemma f64_val_powr: "f64_val (Finite m e) = of_int m * (2::real) powr real_of_int e"
proof (cases "0 \<le> e")
  case True
  then have "real_of_int e = real (nat e)" by simp
  then show ?thesis using True by (simp add: f64_val_def pow2_powr)
next
  case False
  then have "real_of_int e = - real (nat (- e))" by simp
  then show ?thesis using False
    by (simp add: f64_val_def pow2_powr powr_minus divide_inverse)
qed

lemma roundHalfEven_le:
  assumes "M \<le> N * 2 ^ s"
  shows "roundHalfEven M s \<le> N"
proof -
  have q: "M div 2 ^ s \<le> N"
    using zdiv_mono1 [OF assms, of "2 ^ s"] by simp
  show ?thesis
  proof (cases "M div 2 ^ s = N")
    case True
    have "M mod 2 ^ s = M - N * 2 ^ s"
      using True by (simp add: minus_div_mult_eq_mod [symmetric])
    with assms have "M mod 2 ^ s \<le> 0" by simp
    moreover have "0 \<le> M mod 2 ^ s" by simp
    ultimately have "M mod 2 ^ s = 0" by simp
    then show ?thesis using True by (simp add: roundHalfEven_def Let_def)
  next
    case False
    with q have "M div 2 ^ s + 1 \<le> N" by simp
    then show ?thesis by (simp add: roundHalfEven_def Let_def)
  qed
qed

lemma round64_le_int:
  assumes M: "0 \<le> M" and g: "0 \<le> g" "g < 2 ^ 53"
      and X: "real_of_int M * (2::real) powr real_of_int E \<le> real_of_int g"
      and r: "round64 M E = Finite m' e'"
  shows "f64_val (Finite m' e') \<le> real_of_int g"
proof -
  define qe where "qe = max (E + bitlen \<bar>M\<bar> - 53) (- 1074)"
  show ?thesis
  proof (cases "qe \<le> E")
    case True
    then have m': "m' = M * 2 ^ nat (E - qe)" and e': "e' = qe"
      using r by (auto simp add: round64_def Let_def qe_def [symmetric] split: if_splits)
    have "real_of_int E = real_of_int qe + real (nat (E - qe))" using True by simp
    from powr2_split [OF this]
    have "(2::real) powr real_of_int E = (2::real) powr real_of_int qe * 2 ^ nat (E - qe)"
      by (simp only: pow2_powr)
    then have "f64_val (Finite m' e') = real_of_int M * (2::real) powr real_of_int E"
      by (simp add: f64_val_powr m' e')
    with X show ?thesis by simp
  next
    case False
    then have m': "m' = roundHalfEven M (nat (qe - E))" and e': "e' = qe"
      using r by (auto simp add: round64_def Let_def qe_def [symmetric] split: if_splits)
    show ?thesis
    proof (cases "qe \<le> 0")
      case True
      let ?N = "g * 2 ^ nat (- qe)"
      let ?s = "nat (qe - E)"
      have e1: "- real_of_int E = real (nat (- qe)) + real ?s"
        using True False by simp
      have p1: "(2::real) powr (- real_of_int E) = 2 ^ nat (- qe) * 2 ^ ?s"
        using powr2_split [OF e1] by (simp only: pow2_powr)
      have p2: "(2::real) powr real_of_int E * 2 powr (- real_of_int E) = 1"
        using powr2_split [of 0 "real_of_int E" "- real_of_int E"] by simp
      have "real_of_int M = (real_of_int M * (2::real) powr real_of_int E) * 2 powr (- real_of_int E)"
        using p2 by (simp add: mult.assoc)
      also have "\<dots> \<le> real_of_int g * 2 powr (- real_of_int E)"
        using X by (rule mult_right_mono) simp
      also have "\<dots> = real_of_int (?N * 2 ^ ?s)"
        by (simp add: p1)
      finally have "M \<le> ?N * 2 ^ ?s" by (simp only: of_int_le_iff)
      from roundHalfEven_le [OF this] have "m' \<le> ?N" by (simp add: m')
      then have "real_of_int m' \<le> real_of_int ?N" by (simp only: of_int_le_iff)
      then have "real_of_int m' * (2::real) powr real_of_int qe
                   \<le> real_of_int ?N * (2::real) powr real_of_int qe"
        by (rule mult_right_mono) simp
      also have "real_of_int ?N * (2::real) powr real_of_int qe = real_of_int g"
      proof -
        have "0 = real (nat (- qe)) + real_of_int qe" using True by simp
        from powr2_split [OF this] have "(2::real) ^ nat (- qe) * 2 powr real_of_int qe = 1"
          by (simp only: pow2_powr) simp
        then show ?thesis by (simp add: mult.assoc)
      qed
      finally show ?thesis by (simp add: f64_val_powr e')
    next
      case qpos: False
      then have qe: "qe = E + bitlen \<bar>M\<bar> - 53" by (simp add: qe_def max_def split: if_splits)
      have Mpos: "0 < M"
      proof (rule ccontr)
        assume "\<not> 0 < M"
        with M have "M = 0" by simp
        with qe qpos False show False by simp
      qed
      have b1: "1 \<le> bitlen M" using Mpos by (auto simp: bitlen_alt_def)
      have "2 ^ nat (bitlen M - 1) \<le> M" using bitlen_bounds [OF Mpos] by simp
      then have "real_of_int (2 ^ nat (bitlen M - 1)) \<le> real_of_int M"
        by (simp only: of_int_le_iff)
      then have "(2::real) powr real (nat (bitlen M - 1)) \<le> real_of_int M"
        by (simp add: pow2_powr)
      then have "(2::real) powr real (nat (bitlen M - 1)) * (2::real) powr real_of_int E
                   \<le> real_of_int M * (2::real) powr real_of_int E"
        by (rule mult_right_mono) simp
      moreover have "real_of_int (qe + 52) = real (nat (bitlen M - 1)) + real_of_int E"
        using qe Mpos b1 by simp
      from powr2_split [OF this]
      have "(2::real) powr real_of_int (qe + 52)
              = (2::real) powr real (nat (bitlen M - 1)) * (2::real) powr real_of_int E" .
      moreover have "(2::real) powr 53 \<le> 2 powr (real_of_int (qe + 52))"
        using qpos by (intro powr_mono) simp_all
      moreover have "real_of_int g < (2::real) powr 53"
      proof -
        have "real_of_int g < real_of_int (2 ^ 53)" using g(2) by (simp only: of_int_less_iff)
        also have "real_of_int (2 ^ 53) = (2::real) powr 53"
          using pow2_powr [of 53] by simp
        finally show ?thesis .
      qed
      ultimately show ?thesis using X by linarith
    qed
  qed
qed


lemma go_int_le_gridSize:
  assumes g: "0 \<le> g" "g < 2 ^ 53" and m: "0 < m" and le: "f64_val (Finite m e) \<le> 1"
      and fits: "fitsInt (f64_mul (f64_of_int g) (Finite m e))"
  shows "go_int (f64_mul (f64_of_int g) (Finite m e)) \<le> g"
proof -
  obtain m1 e1 where f: "f64_of_int g = Finite m1 e1"
    using fits m by (cases "f64_of_int g") (simp_all add: fitsInt_def)
  then have r1: "round64 g 0 = Finite m1 e1" by (simp add: f64_of_int_def)
  have m1: "0 \<le> m1" by (rule round64_nonneg [OF g(1) r1])
  have "real_of_int g * (2::real) powr real_of_int 0 \<le> real_of_int g" by simp
  from round64_le_int [OF g(1) g this r1]
  have v1: "real_of_int m1 * (2::real) powr real_of_int e1 \<le> real_of_int g"
    by (simp add: f64_val_powr)
  obtain m' e' where p: "round64 (m1 * m) (e1 + e) = Finite m' e'"
    using fits f by (cases "round64 (m1 * m) (e1 + e)") (simp_all add: fitsInt_def)
  have M: "0 \<le> m1 * m" using m1 m by simp
  have m': "0 \<le> m'" by (rule round64_nonneg [OF M p])
  have v: "0 \<le> real_of_int m * (2::real) powr real_of_int e"
    "real_of_int m * (2::real) powr real_of_int e \<le> 1"
    using m le by (simp_all add: f64_val_powr)
  have "real_of_int e1 + real_of_int e = real_of_int (e1 + e)" by simp
  from powr2_split [OF this [symmetric]]
  have "real_of_int (m1 * m) * (2::real) powr real_of_int (e1 + e)
          = (real_of_int m1 * (2::real) powr real_of_int e1)
            * (real_of_int m * (2::real) powr real_of_int e)"
    by simp
  also have "\<dots> \<le> real_of_int g * 1"
    using v1 v g(1) by (intro mult_mono) simp_all
  finally have X: "real_of_int (m1 * m) * (2::real) powr real_of_int (e1 + e) \<le> real_of_int g"
    by simp
  from round64_le_int [OF M g X p] have "f64_val (Finite m' e') \<le> real_of_int g" .
  then have "\<lfloor>f64_val (Finite m' e')\<rfloor> \<le> g" by (simp add: floor_le_iff)
  moreover have "go_int (f64_mul (f64_of_int g) (Finite m e)) = \<lfloor>f64_val (Finite m' e')\<rfloor>"
    using go_int_floor(1) [OF g(1) m fits] by (simp add: f p)
  ultimately show ?thesis by simp
qed


text \<open>
  Claim C7, amended: for every positive board size and ratio whose product fits an
  \<^verbatim>\<open>int\<close>, the grid size is the board size divided by 8 in the integers; the piece size
  is the floor of the \<^verbatim>\<open>float64\<close> product of the grid size and the ratio, that is of
  the product rounded to the nearest \<^verbatim>\<open>float64\<close>; the piece offset is half the
  difference between the grid size and the piece size, the fraction dropped: the floor
  when the piece is no larger than the cell, as it is for every ratio up to 1, and the
  ceiling otherwise.  A board of 500 pixels has a grid size of 62, and the background
  leaves unpainted the pixels of the last 4 columns and of the last 4 rows, and no others.
\<close>

theorem calcDrawSize_geometry:
  assumes "0 < BoardSize o'" and "BoardSize o' < 2 ^ 63"
      and "PieceRatio o' = Finite m e" and "0 < m"
      and "fitsInt (f64_mul (f64_of_int (BoardSize o' div 8)) (PieceRatio o'))"
  shows "gridSize (calcDrawSize o') = BoardSize o' div 8
    \<and> pieceSize (calcDrawSize o')
        = \<lfloor>f64_val (f64_mul (f64_of_int (gridSize (calcDrawSize o'))) (PieceRatio o'))\<rfloor>
    \<and> pieceOffset (calcDrawSize o') =
          (if pieceSize (calcDrawSize o') \<le> gridSize (calcDrawSize o')
           then \<lfloor>real_of_int (gridSize (calcDrawSize o') - pieceSize (calcDrawSize o')) / 2\<rfloor>
           else \<lceil>real_of_int (gridSize (calcDrawSize o') - pieceSize (calcDrawSize o')) / 2\<rceil>)
    \<and> (BoardSize o' < 2 ^ 56 \<and> f64_val (PieceRatio o') \<le> 1 \<longrightarrow>
          pieceSize (calcDrawSize o') \<le> gridSize (calcDrawSize o'))
    \<and> (BoardSize o' = 500 \<longrightarrow>
          gridSize (calcDrawSize o') = 62
          \<and> (\<forall>x y. 0 \<le> x \<and> x < 500 \<and> 0 \<le> y \<and> y < 500 \<longrightarrow>
                (fillColourAt (backgroundLayer o') (x, y) = None \<longleftrightarrow> 496 \<le> x \<or> 496 \<le> y)))"
proof -
  let ?g = "gridSize (calcDrawSize o')"
  let ?s = "pieceSize (calcDrawSize o')"
  have g: "?g = BoardSize o' div 8"
    using assms(1) by (simp add: calcDrawSize_def Let_def go_div_nonneg)
  have g0: "0 \<le> ?g" and g63: "?g < 2 ^ 63" using assms(1,2) g by simp_all
  have fits: "fitsInt (f64_mul (f64_of_int ?g) (Finite m e))"
    using assms(3,5) g by simp
  have s: "?s = go_int (f64_mul (f64_of_int ?g) (Finite m e))"
    using assms(1,3) by (simp add: calcDrawSize_def Let_def)
  note gi = go_int_floor [OF g0 assms(4) fits]
  have ps: "?s = \<lfloor>f64_val (f64_mul (f64_of_int ?g) (PieceRatio o'))\<rfloor>"
    using gi(1) by (simp add: s assms(3))
  have s0: "0 \<le> ?s" and s63: "?s < 2 ^ 63" using gi(2,3) by (simp_all add: s)
  have "int64 (?g - ?s) = ?g - ?s"
    using g0 g63 s0 s63 by (intro int64_id) simp_all
  then have po: "pieceOffset (calcDrawSize o') = go_div (?g - ?s) 2"
    by (simp add: calcDrawSize_def Let_def)
  have off: "pieceOffset (calcDrawSize o') =
          (if ?s \<le> ?g then \<lfloor>real_of_int (?g - ?s) / 2\<rfloor> else \<lceil>real_of_int (?g - ?s) / 2\<rceil>)"
  proof (cases "?s \<le> ?g")
    case True
    then have "0 \<le> ?g - ?s" by simp
    from go_div_2_floor [OF this] True show ?thesis by (simp only: po if_True)
  next
    case False
    then have "?g - ?s < 0" by simp
    from go_div_2_ceiling [OF this] False show ?thesis by (simp only: po if_False)
  qed
  have le: "?s \<le> ?g" if "BoardSize o' < 2 ^ 56 \<and> f64_val (PieceRatio o') \<le> 1"
  proof -
    have "BoardSize o' < 72057594037927936" using that by simp
    then have "BoardSize o' div 8 < 9007199254740992" by arith
    then have "?g < 2 ^ 53" using g by simp
    from go_int_le_gridSize [OF g0 this assms(4) _ fits] that show ?thesis
      by (simp add: s assms(3))
  qed
  have m: "?g = 62 \<and> (\<forall>x y. 0 \<le> x \<and> x < 500 \<and> 0 \<le> y \<and> y < 500 \<longrightarrow>
                (fillColourAt (backgroundLayer o') (x, y) = None \<longleftrightarrow> 496 \<le> x \<or> 496 \<le> y))"
    if "BoardSize o' = 500"
  proof -
    have g62: "?g = 62" using that g by simp
    have "fillColourAt (backgroundLayer o') (x, y) = None \<longleftrightarrow> 496 \<le> x \<or> 496 \<le> y"
      if "0 \<le> x \<and> x < 500 \<and> 0 \<le> y \<and> y < 500" for x y
      using that backgroundOps_covered [of 62 x y]
      by (simp add: backgroundLayer_eq g62 \<open>BoardSize o' = 500\<close>) arith
    with g62 show ?thesis by blast
  qed
  from g ps off le m show ?thesis by blast
qed

theorem calcDrawSize_geometry_witness:
  "0 < BoardSize (zeroOptions\<lparr>BoardSize := 500, PieceRatio := defaultPieceRatio\<rparr>)
   \<and> BoardSize (zeroOptions\<lparr>BoardSize := 500, PieceRatio := defaultPieceRatio\<rparr>) < 2 ^ 63
   \<and> PieceRatio (zeroOptions\<lparr>BoardSize := 500, PieceRatio := defaultPieceRatio\<rparr>)
       = Finite 8106479329266893 (- 53)
   \<and> fitsInt (f64_mul (f64_of_int (500 div 8)) (Finite 8106479329266893 (- 53)))
   \<and> f64_val (Finite 8106479329266893 (- 53)) \<le> 1
   \<and> calcDrawSize (zeroOptions\<lparr>BoardSize := 500, PieceRatio := defaultPieceRatio\<rparr>)
       = \<lparr>gridSize = 62, pieceSize = 55, pieceOffset = 3\<rparr>
   \<and> \<lfloor>f64_val (f64_mul (f64_of_int 62) (Finite 8106479329266893 (- 53)))\<rfloor> = 55
   \<and> fillColourAt (backgroundLayer (zeroOptions\<lparr>BoardSize := 500, PieceRatio := defaultPieceRatio\<rparr>))
         (497, 10) = None
   \<and> fillColourAt (backgroundLayer (zeroOptions\<lparr>BoardSize := 500, PieceRatio := defaultPieceRatio\<rparr>))
         (495, 495) \<noteq> None"
proof -
  let ?o = "zeroOptions\<lparr>BoardSize := 500, PieceRatio := defaultPieceRatio\<rparr>"
  have h: "0 < BoardSize ?o" "BoardSize ?o < 2 ^ 63"
    "PieceRatio ?o = Finite 8106479329266893 (- 53)" "0 < (8106479329266893::int)"
    by (simp_all add: zeroOptions_def defaultPieceRatio_def)
  have b: "BoardSize ?o = 500" by (simp add: zeroOptions_def)
  have f: "fitsInt (f64_mul (f64_of_int (500 div 8)) (Finite 8106479329266893 (- 53)))"
    by code_simp
  then have f': "fitsInt (f64_mul (f64_of_int (BoardSize ?o div 8)) (PieceRatio ?o))"
    by (simp only: b h(3))
  have v: "calcDrawSize ?o = \<lparr>gridSize = 62, pieceSize = 55, pieceOffset = 3\<rparr>"
    by code_simp
  have l: "f64_val (Finite 8106479329266893 (- 53)) \<le> 1"
    by (simp add: f64_val_def)
  note t = calcDrawSize_geometry [OF h f']
  have fl: "\<lfloor>f64_val (f64_mul (f64_of_int 62) (Finite 8106479329266893 (- 53)))\<rfloor> = 55"
    using t by (simp add: v h(3))
  have px: "fillColourAt (backgroundLayer ?o) (497, 10) = None"
    "fillColourAt (backgroundLayer ?o) (495, 495) \<noteq> None"
    using t b by simp_all
  from h f l v fl px show ?thesis by simp
qed


section \<open>The layers of a render\<close>

lemma paintedBy_eq:
  assumes "4 * BoardSize (applyDefaults options) * BoardSize (applyDefaults options) \<le> 2 ^ 48"
  shows "paintedBy assets options r =
     backgroundOps (gridSize (calcDrawSize (applyDefaults options)))
     @ highlightOps (Inverted options) (gridSize (calcDrawSize (applyDefaults options))) (lastMove r)
     @ checkOps (Inverted options) (gridSize (calcDrawSize (applyDefaults options))) (checkTile r)
     @ labelOps (applyDefaults options) (gridSize (calcDrawSize (applyDefaults options)))
     @ pieceOps assets (applyDefaults options) (calcDrawSize (applyDefaults options)) (board r)"
proof -
  have i: "Inverted (applyDefaults options) = Inverted options"
    by (simp add: applyDefaults_def Let_def)
  show ?thesis using assms
    by (simp add: paintedBy_def Render_eq renderedContext_def Let_def i)
qed

lemma Render_painted:
  assumes "fst (Render assets options r) = Inr im"
  shows "painted im = paintedBy assets options r"
    and "4 * BoardSize (applyDefaults options) * BoardSize (applyDefaults options) \<le> 2 ^ 48"
  using assms
  by (auto simp add: paintedBy_def Render_eq Image_def split: option.splits if_splits)

lemma fillColourAt_append:
  "fillColourAt (xs @ ys) p =
     (case fillColourAt ys p of Some c \<Rightarrow> Some c | None \<Rightarrow> fillColourAt xs p)"
proof (induction xs)
  case Nil
  then show ?case by (simp split: option.splits)
next
  case (Cons x xs)
  then show ?case by (cases x; cases "fillColourAt ys p") simp_all
qed

lemma fillColourAt_nofill:
  "\<forall>x\<in>set os. \<not> isFill x \<Longrightarrow> fillColourAt os p = None"
proof (induction os)
  case Nil
  then show ?case by simp
next
  case (Cons x os)
  then show ?case by (cases x) simp_all
qed

lemma labelOps_nofill: "\<forall>x\<in>set (labelOps o' g). \<not> isFill x"
  by (auto simp add: labelOps_def)

lemma pieceOps_nofill: "\<forall>x\<in>set (pieceOps assets o' ds ps). \<not> isFill x"
  by (induction ps) (auto simp add: pieceOp_def split: sum.splits)

lemma backgroundOps_colours:
  assumes "FillPath rs c \<in> set (backgroundOps g)"
  shows "c = rgb255 colorLight \<or> c = rgb255 colorDark"
proof -
  have "\<exists>op\<in>set (backgroundOps g). FillPath rs c = op" using assms by blast
  then obtain row col :: int where
    "FillPath rs c = FillPath [(row * g, col * g, g, g)]
        (rgb255 (if go_mod (col + row) 2 = 0 then colorLight else colorDark))"
    unfolding backgroundOps_def Bex_comprehension by blast
  then show ?thesis by (cases "go_mod (col + row) 2 = 0") simp_all
qed

lemma highlightOps_colours:
  "FillPath rs c \<in> set (highlightOps iv g lm)
     \<Longrightarrow> c = rgb255 colorHighlightLight \<or> c = rgb255 colorHighlightDark"
  by (auto simp add: highlightOps_def highlightFill_def split: option.splits if_splits)

lemma red_distinct:
  "rgb255 colorCheck = (255, 0, 0, 255)"
  "rgb255 colorLight \<noteq> (255, 0, 0, 255)" "rgb255 colorDark \<noteq> (255, 0, 0, 255)"
  "rgb255 colorHighlightLight \<noteq> (255, 0, 0, 255)" "rgb255 colorHighlightDark \<noteq> (255, 0, 0, 255)"
  by (simp_all add: rgb255_def colorCheck_def colorLight_def colorDark_def
      colorHighlightLight_def colorHighlightDark_def)


text \<open>
  Claim C4.  During \<^verbatim>\<open>Render\<close> (of a canvas that can be allocated) a fill of pure red is
  painted if and only if the check tile is not \<^verbatim>\<open>NoTile\<close>.  It is the fill of the cell
  of the check tile, it comes right after the two fills of the last move, and no fill
  comes after it: every pixel of the cell of the check tile is left red by the fills,
  also where the cell is that of a last-move square.  A render that succeeds returns what
  was painted.
\<close>

theorem Render_check_fill:
  assumes fits: "4 * BoardSize (applyDefaults options) * BoardSize (applyDefaults options) \<le> 2 ^ 48"
  shows "((\<exists>rs. FillPath rs (255, 0, 0, 255) \<in> set (paintedBy assets options r))
            \<longleftrightarrow> checkTile r \<noteq> NoTile)
    \<and> (checkTile r \<noteq> NoTile \<longrightarrow>
         (\<forall>m. lastMove r = Some m \<longrightarrow>
            (\<exists>pre post cF cT.
               paintedBy assets options r =
                 pre @ [FillPath [tileRect (Inverted options) (renderGrid options) (From m)] cF,
                        FillPath [tileRect (Inverted options) (renderGrid options) (To m)] cT,
                        FillPath [tileRect (Inverted options) (renderGrid options) (checkTile r)]
                          (255, 0, 0, 255)] @ post
               \<and> (\<forall>x\<in>set post. \<not> isFill x)))
         \<and> (\<forall>p. covers (tileRect (Inverted options) (renderGrid options) (checkTile r)) p \<longrightarrow>
                fillColourAt (paintedBy assets options r) p = Some (255, 0, 0, 255)))
    \<and> (\<forall>im. fst (Render assets options r) = Inr im \<longrightarrow>
          painted im = paintedBy assets options r)"
proof -
  define g where "g = renderGrid options"
  define bg where "bg = backgroundOps g"
  define hl where "hl = highlightOps (Inverted options) g (lastMove r)"
  define ck where "ck = checkOps (Inverted options) g (checkTile r)"
  define post where "post = labelOps (applyDefaults options) g
     @ pieceOps assets (applyDefaults options) (calcDrawSize (applyDefaults options)) (board r)"
  let ?red = "(255, 0, 0, 255) :: rgba"
  let ?F = "FillPath [tileRect (Inverted options) g (checkTile r)] ?red"
  have pb: "paintedBy assets options r = bg @ hl @ ck @ post"
    using paintedBy_eq [OF fits, of assets r]
    by (simp add: bg_def hl_def ck_def post_def g_def renderGrid_def)
  have post: "\<forall>x\<in>set post. \<not> isFill x"
    using labelOps_nofill pieceOps_nofill by (auto simp add: post_def)
  have nobg: "FillPath rs ?red \<notin> set bg" for rs
    using backgroundOps_colours [of rs ?red g] red_distinct by (auto simp add: bg_def)
  have nohl: "FillPath rs ?red \<notin> set hl" for rs
    using highlightOps_colours [of rs ?red "Inverted options" g "lastMove r"] red_distinct
    by (auto simp add: hl_def)
  have nopost: "FillPath rs ?red \<notin> set post" for rs
    using post by (metis isFill.simps(1))
  have ckN: "ck = []" if "checkTile r = NoTile"
    using that by (simp add: ck_def checkOps_def)
  have ckS: "ck = [?F]" if "checkTile r \<noteq> NoTile"
    using that by (simp add: ck_def checkOps_def red_distinct(1))
  have one: "(\<exists>rs. FillPath rs ?red \<in> set (paintedBy assets options r))
               \<longleftrightarrow> checkTile r \<noteq> NoTile"
  proof (cases "checkTile r = NoTile")
    case True
    then show ?thesis using nobg nohl nopost by (simp add: pb ckN)
  next
    case False
    then show ?thesis by (auto simp add: pb ckS)
  qed
  have two: "\<exists>pre post' cF cT.
               paintedBy assets options r =
                 pre @ [FillPath [tileRect (Inverted options) g (From m)] cF,
                        FillPath [tileRect (Inverted options) g (To m)] cT, ?F] @ post'
               \<and> (\<forall>x\<in>set post'. \<not> isFill x)"
    if ct: "checkTile r \<noteq> NoTile" and lm: "lastMove r = Some m" for m
  proof -
    obtain cF cT where "hl = [FillPath [tileRect (Inverted options) g (From m)] cF,
                        FillPath [tileRect (Inverted options) g (To m)] cT]"
      using lm by (simp add: hl_def highlightOps_def highlightFill_def)
    then have "paintedBy assets options r =
                 bg @ [FillPath [tileRect (Inverted options) g (From m)] cF,
                        FillPath [tileRect (Inverted options) g (To m)] cT, ?F] @ post"
      by (simp add: pb ckS [OF ct])
    with post show ?thesis by blast
  qed
  have three: "fillColourAt (paintedBy assets options r) p = Some ?red"
    if "checkTile r \<noteq> NoTile" and "covers (tileRect (Inverted options) g (checkTile r)) p" for p
  proof -
    have "paintedBy assets options r = (bg @ hl) @ [?F] @ post"
      by (simp add: pb ckS [OF that(1)])
    moreover have "fillColourAt post p = None" by (rule fillColourAt_nofill [OF post])
    moreover have "fillColourAt [?F] p = Some ?red" using that(2) by simp
    ultimately show ?thesis by (simp only: fillColourAt_append) simp
  qed
  have four: "painted im = paintedBy assets options r"
    if "fst (Render assets options r) = Inr im" for im
    using Render_painted(1) [OF that] .
  from one two three four show ?thesis unfolding g_def by blast
qed


lemma renderGrid_zero: "renderGrid zeroOptions = 64" "renderOffset zeroOptions = 3"
  by (code_simp, code_simp)

lemma fits_zero:
  "4 * BoardSize (applyDefaults zeroOptions) * BoardSize (applyDefaults zeroOptions) \<le> 2 ^ 48"
  by (simp add: applyDefaults_def zeroOptions_def Let_def defaultBoardSize_def)

theorem Render_check_fill_witness:
  "4 * BoardSize (applyDefaults zeroOptions) * BoardSize (applyDefaults zeroOptions) \<le> 2 ^ 48
   \<and> checkTile (SetCheckTile H5 demoRenderer) = H5 \<and> H5 \<noteq> NoTile
   \<and> lastMove (SetCheckTile H5 demoRenderer) = Some \<lparr>From = D1, To = H5\<rparr>
   \<and> tileRect (Inverted zeroOptions) (renderGrid zeroOptions) H5 = (448, 192, 64, 64)
   \<and> covers (448, 192, 64, 64) (450, 200)
   \<and> fillColourAt (paintedBy demoAssets zeroOptions (SetCheckTile H5 demoRenderer)) (450, 200)
       = Some (255, 0, 0, 255)
   \<and> (\<exists>rs. FillPath rs (255, 0, 0, 255)
              \<in> set (paintedBy demoAssets zeroOptions (SetCheckTile H5 demoRenderer)))"
proof -
  let ?r = "SetCheckTile H5 demoRenderer"
  have c: "checkTile ?r = H5" "H5 \<noteq> NoTile" "lastMove ?r = Some \<lparr>From = D1, To = H5\<rparr>"
    by (simp_all add: SetCheckTile_def SetLastMove_def demoRenderer_def H5_def NoTile_def)
  have t: "tileRect (Inverted zeroOptions) (renderGrid zeroOptions) H5 = (448, 192, 64, 64)"
  proof -
    have i: "Inverted zeroOptions = False" by (simp add: zeroOptions_def)
    show ?thesis unfolding renderGrid_zero i
      by (simp add: tileRect_def tileFile_def tileRank_def
          fileT_def rank_def H5_def go_div_def go_mod_def)
  qed
  have v: "covers (448, 192, 64, 64) (450, 200)" by simp
  note th = Render_check_fill [OF fits_zero, of demoAssets ?r]
  have ne: "checkTile ?r \<noteq> NoTile" using c by simp
  have p1: "fillColourAt (paintedBy demoAssets zeroOptions ?r) (450, 200) = Some (255, 0, 0, 255)"
    using th ne v by (simp add: c(1) t)
  have p2: "\<exists>rs. FillPath rs (255, 0, 0, 255) \<in> set (paintedBy demoAssets zeroOptions ?r)"
    using th ne by blast
  from fits_zero c t v p1 p2 show ?thesis by blast
qed


lemma Inverted_applyDefaults: "Inverted (applyDefaults options) = Inverted options"
  by (simp add: applyDefaults_def Let_def)

lemma loadPiece_applyDefaults:
  "loadPiece assets (applyDefaults options) p = loadPiece assets options p"
  by (simp add: loadPiece_def applyDefaults_def Let_def)

lemma pieceError_cong:
  "pieceError assets (applyDefaults options) ps = pieceError assets options ps"
  by (induction ps) (simp_all add: loadPiece_applyDefaults split: sum.splits)






lemma kingRenderer_fields:
  "board kingRenderer = [\<lparr>tile = E8, pieceSymbol = ''k''\<rparr>]"
  "checkTile kingRenderer = E8"
  "lastMove kingRenderer = Some \<lparr>From = E8, To = H5\<rparr>"
  by (simp_all add: kingRenderer_def demoRenderer_def SetCheckTile_def SetLastMove_def)

lemma loadPiece_king:
  "loadPiece demoAssets (zeroOptions\<lparr>Resizer := s\<rparr>) \<lparr>tile = E8, pieceSymbol = ''k''\<rparr>
     = Inr (PNG 45 45 [])"
  by (simp add: loadPiece_def loadPNG_def zeroOptions_def pieceNames_def demoAssets_def
      fsOpen_def png_Decode_def)

lemma calcDrawSize_zero:
  "calcDrawSize (applyDefaults (zeroOptions\<lparr>Resizer := s\<rparr>))
     = \<lparr>gridSize = 64, pieceSize = 57, pieceOffset = 3\<rparr>"
proof -
  have "calcDrawSize (applyDefaults (zeroOptions\<lparr>Resizer := s\<rparr>))
          = calcDrawSize (applyDefaults zeroOptions)"
    by (simp add: calcDrawSize_def applyDefaults_def Let_def zeroOptions_def)
  also have "\<dots> = \<lparr>gridSize = 64, pieceSize = 57, pieceOffset = 3\<rparr>" by code_simp
  finally show ?thesis .
qed

lemma Render_king:
  "fst (Render demoAssets (zeroOptions\<lparr>Resizer := s\<rparr>) kingRenderer)
     = Inr (Image (renderedContext demoAssets (applyDefaults (zeroOptions\<lparr>Resizer := s\<rparr>))
                     kingRenderer))"
proof -
  have b: "BoardSize (applyDefaults (zeroOptions\<lparr>Resizer := s\<rparr>)) = 512"
    by (simp add: applyDefaults_def zeroOptions_def Let_def defaultBoardSize_def)
  have e: "pieceError demoAssets (applyDefaults (zeroOptions\<lparr>Resizer := s\<rparr>))
             (board kingRenderer) = None"
    by (simp add: kingRenderer_fields loadPiece_applyDefaults loadPiece_king)
  show ?thesis by (simp add: Render_eq b e)
qed


text \<open>
  \<^verbatim>\<open>resizeImage\<close> scales with \<^verbatim>\<open>draw.BiLinear\<close>, whatever scaler it is given.
\<close>

lemma resizeImage_BiLinear:
  "written (resizeImage piece ds resizer)
     = [Scaling BiLinear (image_Rect 0 0 (pieceSize ds) (pieceSize ds)) piece (Bounds piece) Over]"
  by (simp add: resizeImage_def Let_def Scale_def NewRGBA_def)

text \<open>
  Claim C1.  Every sprite should be scaled by the scaler of the options, CatmullRom when
  none is set.  The code does not: with the options at their zero value the scaler is
  CatmullRom, and with \<^verbatim>\<open>Resizer: draw.NearestNeighbor\<close> it is that one, but for every
  value of \<^verbatim>\<open>Resizer\<close> the king of the renderer is scaled to 57 by 57 by BiLinear,
  drawn over.
\<close>

theorem Render_scales_with_BiLinear:
  "Resizer (applyDefaults zeroOptions) = Some CatmullRom
   \<and> Resizer (applyDefaults (zeroOptions\<lparr>Resizer := Some NearestNeighbor\<rparr>)) = Some NearestNeighbor
   \<and> (\<forall>s. \<exists>im. fst (Render demoAssets (zeroOptions\<lparr>Resizer := s\<rparr>) kingRenderer) = Inr im
          \<and> last (painted im)
              = DrawnImage
                  \<lparr>bounds = (0, 0, 57, 57),
                   written = [Scaling BiLinear (0, 0, 57, 57) (PNG 45 45 []) (0, 0, 45, 45) Over]\<rparr>
                  3 259)"
proof -
  have a: "Resizer (applyDefaults zeroOptions) = Some CatmullRom"
    "Resizer (applyDefaults (zeroOptions\<lparr>Resizer := Some NearestNeighbor\<rparr>)) = Some NearestNeighbor"
    by (simp_all add: applyDefaults_def Let_def zeroOptions_def)
  have rf: "rank E8 = 0" "fileT E8 = 4"
    by (simp_all add: rank_def fileT_def E8_def go_div_def go_mod_def)
  have i: "Inverted (zeroOptions\<lparr>Resizer := s\<rparr>) = False" for s by (simp add: zeroOptions_def)
  have l: "last (painted (Image (renderedContext demoAssets
                  (applyDefaults (zeroOptions\<lparr>Resizer := s\<rparr>)) kingRenderer)))
            = DrawnImage
                  \<lparr>bounds = (0, 0, 57, 57),
                   written = [Scaling BiLinear (0, 0, 57, 57) (PNG 45 45 []) (0, 0, 45, 45) Over]\<rparr>
                  3 259" for s
    by (simp add: Image_def renderedContext_def Let_def kingRenderer_fields
        loadPiece_applyDefaults loadPiece_king pieceOp_def calcDrawSize_zero
        Inverted_applyDefaults i tileRank_def tileFile_def rf
        resizeImage_def Scale_def NewRGBA_def image_Rect_def Bounds_def)
  from a Render_king l show ?thesis by simp
qed


section \<open>Failure and determinism\<close>









end
